theory Spec2Isabelle
  imports Complex_Main "HOL-Library.Multiset"
begin

section \<open>Data model\<close>

text \<open>
  The scalar values an \<open>id\<close> field of a provider payload can carry. \<open>Undefined\<close> is
  the value of a missing key. Numbers are modelled as integers.
\<close>

datatype jsval = Undefined | Null | Num int | Str string

text \<open>Truthiness as used by \<open>item.id || ...\<close>: the falsy values of this type.\<close>

fun falsy :: "jsval \<Rightarrow> bool" where
  "falsy Undefined = True"
| "falsy Null = True"
| "falsy (Num n) = (n = 0)"
| "falsy (Str s) = (s = [])"

datatype Impact = High | Medium | Low

text \<open>
  \<open>interface NewsItem\<close> (types). \<open>published_on\<close> is a number of epoch seconds, and
  \<open>None\<close> when the field holds no number: \<open>undefined\<close> where a CryptoCompare item
  lacks it, \<open>NaN\<close> where the date of a CryptoPanic item is missing or does not parse.
  \<open>body\<close> is \<open>None\<close> when the provider payload carries no body (\<open>undefined\<close> or
  \<open>null\<close>): the CryptoCompare adapter copies \<open>item.body\<close> as it is. The three
  optional fields are absent until enrichment has run. The optional \<open>votes\<close>, which
  the CryptoPanic adapter copies and nothing reads, are left out.
\<close>

record NewsItem =
  item_id :: jsval
  title :: string
  url :: string
  source :: string
  published_on :: "int option"
  imageurl :: string
  body :: "string option"
  sentiment :: "string option"
  reliability :: "int option"
  impact :: "Impact option"

text \<open>A JavaScript exception value: its \<open>name\<close> and its \<open>message\<close>.\<close>

datatype js_error = JsError (err_name: string) (err_message: string)

text \<open>
  The outcome of one \<open>fetch\<close> followed by \<open>response.json()\<close>: the fetch rejects with
  an exception (network error, abort), or a response arrives with an HTTP status and a
  body, which is \<open>None\<close> when \<open>response.json()\<close> rejects (parse error).
\<close>

datatype 'b http = Rejected js_error | Response nat "'b option"

definition ok :: "nat \<Rightarrow> bool" where
  "ok status = (200 \<le> status \<and> status \<le> 299)"

text \<open>
  \<open>validateResponse\<close>: raises for every response that is not \<open>ok\<close>. The status and
  the error details the source appends to the message are left out of the message; no
  branch of the program reads them.
\<close>

definition validateResponse :: "nat \<Rightarrow> string \<Rightarrow> js_error + unit" where
  "validateResponse status apiName =
     (if \<not> ok status then Inl (JsError ''Error'' (apiName @ '' API error'')) else Inr ())"

section \<open>Module state of the API service\<close>

record 'a cache_entry =
  data :: 'a
  timestamp :: int

record MarketData =
  price :: real
  volume24h :: real
  marketCap :: real
  dominance :: real
  change24h :: real

text \<open>
  The module-level variables of the service, the clock read by \<open>Date.now()\<close>
  (milliseconds), and three logs that record what the service does to the outside:
  \<open>upstreamCalls\<close> counts the HTTP requests issued, \<open>abortCalls\<close> counts the
  calls of \<open>controller.abort()\<close> made by timeout timers, \<open>delays\<close> lists the
  arguments of the calls of \<open>delay\<close> in order.
\<close>

record api_state =
  newsCache :: "NewsItem list cache_entry option"
  sentimentCache :: "string \<rightharpoonup> string cache_entry"
  marketDataCache :: "MarketData cache_entry option"
  requestCount :: int
  lastRequestTime :: int
  now :: int
  upstreamCalls :: nat
  abortCalls :: nat
  delays :: "int list"

definition NEWS_CACHE_DURATION :: int where "NEWS_CACHE_DURATION = 60000"
definition SENTIMENT_CACHE_DURATION :: int where "SENTIMENT_CACHE_DURATION = 300000"
definition MARKET_DATA_CACHE_DURATION :: int where "MARKET_DATA_CACHE_DURATION = 30000"

definition maxRetries :: nat where "maxRetries = 3"
definition baseDelay :: int where "baseDelay = 1000"
definition maxRequests :: int where "maxRequests = 10"
definition timeWindow :: int where "timeWindow = 60000"

text \<open>The state of a freshly loaded module at clock value \<open>t\<close>.\<close>

definition initial_state :: "int \<Rightarrow> api_state" where
  "initial_state t =
     \<lparr> newsCache = None, sentimentCache = Map.empty, marketDataCache = None,
       requestCount = 0, lastRequestTime = t, now = t, upstreamCalls = 0,
       abortCalls = 0, delays = [] \<rparr>"

text \<open>Time passing by \<open>ms\<close> milliseconds while the program is suspended.\<close>

definition advance :: "int \<Rightarrow> api_state \<Rightarrow> api_state" where
  "advance ms s = s\<lparr> now := now s + ms \<rparr>"

text \<open>\<open>delay(ms)\<close>: suspends for \<open>ms\<close> milliseconds.\<close>

definition delay :: "int \<Rightarrow> api_state \<Rightarrow> api_state" where
  "delay ms s = s\<lparr> now := now s + ms, delays := delays s @ [ms] \<rparr>"

section \<open>Provider adapters\<close>

text \<open>
  The parsed body of a news response: the expected array field is missing (or not an
  array), or it is an array of raw items.
\<close>

datatype 'raw news_body = NoArray | Array "'raw list"

text \<open>A raw CryptoCompare item; an element of the array may also be \<open>null\<close>.\<close>

record compare_raw =
  cc_id :: jsval
  cc_title :: string
  cc_url :: string
  cc_source :: string
  cc_published_on :: "int option"
  cc_imageurl :: string
  cc_body :: "string option"

text \<open>
  A raw CryptoPanic item. \<open>cp_source\<close> is \<open>item.source.title\<close>, \<open>None\<close> when
  \<open>item.source\<close> is missing; \<open>cp_published_ms\<close> is the value of
  \<open>new Date(item.published_at).getTime()\<close>, \<open>None\<close> when it is \<open>NaN\<close>; \<open>cp_image\<close> is
  \<open>item.metadata?.image?.url\<close> and \<open>cp_description\<close> is
  \<open>item.metadata?.description\<close>.
\<close>

record panic_raw =
  cp_id :: jsval
  cp_title :: string
  cp_url :: string
  cp_source :: "string option"
  cp_published_ms :: "int option"
  cp_image :: "string option"
  cp_description :: "string option"
  cp_sentiment :: "string option"

definition TypeError :: js_error where
  "TypeError = JsError ''TypeError'' ''Cannot read properties of undefined''"

text \<open>The callback of \<open>data.Data.map\<close>; reading a field of a \<open>null\<close> element raises.\<close>

definition compare_item :: "compare_raw option \<Rightarrow> js_error + NewsItem" where
  "compare_item raw =
     (case raw of
        None \<Rightarrow> Inl TypeError
      | Some item \<Rightarrow> Inr
          \<lparr> item_id = cc_id item, title = cc_title item, url = cc_url item,
            source = ''CryptoCompare - '' @ cc_source item,
            published_on = cc_published_on item, imageurl = cc_imageurl item,
            body = cc_body item, sentiment = None, reliability = None, impact = None \<rparr>)"

text \<open>\<open>x || ''\<close> on an optional string.\<close>

definition or_empty :: "string option \<Rightarrow> string" where
  "or_empty x = (case x of None \<Rightarrow> [] | Some s \<Rightarrow> s)"

text \<open>
  The callback of \<open>data.results.map\<close>. \<open>synth\<close> is the string that
  \<open>String(Date.now() + Math.random())\<close> yields at this element.
\<close>

definition panic_item :: "string \<Rightarrow> panic_raw option \<Rightarrow> js_error + NewsItem" where
  "panic_item synth raw =
     (case raw of
        None \<Rightarrow> Inl TypeError
      | Some item \<Rightarrow>
          (case cp_source item of
             None \<Rightarrow> Inl TypeError
           | Some src \<Rightarrow> Inr
               \<lparr> item_id = (if falsy (cp_id item) then Str synth else cp_id item),
                 title = cp_title item, url = cp_url item,
                 source = ''CryptoPanic - '' @ src,
                 published_on = map_option (\<lambda>ms. ms div 1000) (cp_published_ms item),
                 imageurl = or_empty (cp_image item),
                 body = Some (or_empty (cp_description item)),
                 sentiment = cp_sentiment item, reliability = None, impact = None \<rparr>))"

text \<open>\<open>Array.prototype.map\<close> with a callback that may raise: the first exception wins.\<close>

fun map_raising :: "('a \<Rightarrow> js_error + 'b) \<Rightarrow> 'a list \<Rightarrow> js_error + 'b list" where
  "map_raising f [] = Inr []"
| "map_raising f (x # xs) =
     (case f x of
        Inl e \<Rightarrow> Inl e
      | Inr y \<Rightarrow> (case map_raising f xs of Inl e \<Rightarrow> Inl e | Inr ys \<Rightarrow> Inr (y # ys)))"

text \<open>The same for a callback that also depends on the position of the element.\<close>

fun map_raising_from :: "nat \<Rightarrow> (nat \<Rightarrow> 'a \<Rightarrow> js_error + 'b) \<Rightarrow> 'a list \<Rightarrow> js_error + 'b list" where
  "map_raising_from i f [] = Inr []"
| "map_raising_from i f (x # xs) =
     (case f i x of
        Inl e \<Rightarrow> Inl e
      | Inr y \<Rightarrow> (case map_raising_from (Suc i) f xs of Inl e \<Rightarrow> Inl e | Inr ys \<Rightarrow> Inr (y # ys)))"

definition SyntaxError :: js_error where
  "SyntaxError = JsError ''SyntaxError'' ''Unexpected token in JSON''"

text \<open>The body of the \<open>try\<close> block of \<open>fetchCryptoCompareNews\<close>.\<close>

definition compare_try :: "compare_raw option news_body http \<Rightarrow> js_error + NewsItem list" where
  "compare_try resp =
     (case resp of
        Rejected e \<Rightarrow> Inl e
      | Response status json \<Rightarrow>
          (case validateResponse status ''CryptoCompare'' of
             Inl e \<Rightarrow> Inl e
           | Inr _ \<Rightarrow>
               (case json of
                  None \<Rightarrow> Inl SyntaxError
                | Some NoArray \<Rightarrow> Inr []
                | Some (Array items) \<Rightarrow> map_raising compare_item items)))"

text \<open>\<open>fetchCryptoCompareNews\<close>: the \<open>catch\<close> clause turns every exception into \<open>[]\<close>.\<close>

definition fetchCryptoCompareNews :: "compare_raw option news_body http \<Rightarrow> NewsItem list" where
  "fetchCryptoCompareNews resp = (case compare_try resp of Inl e \<Rightarrow> [] | Inr items \<Rightarrow> items)"

text \<open>The body of the \<open>try\<close> block of \<open>fetchCryptoPanicNews\<close>.\<close>

definition panic_try ::
  "(nat \<Rightarrow> string) \<Rightarrow> panic_raw option news_body http \<Rightarrow> js_error + NewsItem list" where
  "panic_try synth resp =
     (case resp of
        Rejected e \<Rightarrow> Inl e
      | Response status json \<Rightarrow>
          (case validateResponse status ''CryptoPanic'' of
             Inl e \<Rightarrow> Inl e
           | Inr _ \<Rightarrow>
               (case json of
                  None \<Rightarrow> Inl SyntaxError
                | Some NoArray \<Rightarrow> Inr []
                | Some (Array items) \<Rightarrow> map_raising_from 0 (\<lambda>i. panic_item (synth i)) items)))"

definition fetchCryptoPanicNews ::
  "(nat \<Rightarrow> string) \<Rightarrow> panic_raw option news_body http \<Rightarrow> NewsItem list" where
  "fetchCryptoPanicNews synth resp =
     (case panic_try synth resp of Inl e \<Rightarrow> [] | Inr items \<Rightarrow> items)"

section \<open>The aggregator\<close>

text \<open>
  The comparator \<open>(a, b) => b.published_on - a.published_on\<close>. The difference is
  \<open>NaN\<close>, here \<open>None\<close>, as soon as one of the two dates is not a number.
\<close>

definition comparefn :: "NewsItem \<Rightarrow> NewsItem \<Rightarrow> int option" where
  "comparefn a b =
     (case published_on b of
        None \<Rightarrow> None
      | Some y \<Rightarrow> (case published_on a of None \<Rightarrow> None | Some x \<Rightarrow> Some (y - x)))"

text \<open>\<open>v > 0\<close>, which is false for \<open>NaN\<close>.\<close>

definition greater_zero :: "int option \<Rightarrow> bool" where
  "greater_zero v = (case v of None \<Rightarrow> False | Some n \<Rightarrow> n > 0)"

text \<open>
  \<open>Array.prototype.sort\<close> with this comparator. For a consistent comparator the
  result is fixed: the stable sort. Where the comparator yields \<open>NaN\<close> the language
  leaves the order to the engine; the model takes insertion sort: each element in turn
  moves left past the elements \<open>tmp\<close> with \<open>comparefn(tmp, element) > 0\<close> and stops at
  the first other one. \<open>insert_back\<close> works on the sorted prefix in reverse, its last
  element first.
\<close>

fun insert_back :: "NewsItem \<Rightarrow> NewsItem list \<Rightarrow> NewsItem list" where
  "insert_back element [] = [element]"
| "insert_back element (tmp # rest) =
     (if greater_zero (comparefn tmp element) then tmp # insert_back element rest
      else element # tmp # rest)"

definition sortNews :: "NewsItem list \<Rightarrow> NewsItem list" where
  "sortNews xs = rev (foldl (\<lambda>prefix element. insert_back element prefix) [] xs)"

text \<open>
  What the outside world does during one aggregation attempt: the two upstream
  responses, the synthesized id strings, the time in milliseconds until both adapters
  have settled, and the exception a statement of the \<open>try\<close> block of
  \<open>fetchCryptoNews\<close> raises, if one does. Both adapters catch every exception of their
  own and the signal of the controller reaches no request, so neither a rejection nor an
  \<open>AbortError\<close> comes out of the awaited call. What is left is a failure of the
  runtime: a \<open>ReferenceError\<close> where the runtime defines no \<open>AbortController\<close>, so
  that \<open>new AbortController()\<close>, the first statement of the block, raises before the
  adapters are called; a \<open>RangeError\<close> where memory runs out while the results are
  spread and sorted.
\<close>

datatype runtime_fault = ReferenceError | RangeError

definition thrown :: "runtime_fault \<Rightarrow> js_error" where
  "thrown f =
     (case f of
        ReferenceError \<Rightarrow> JsError ''ReferenceError'' ''AbortController is not defined''
      | RangeError \<Rightarrow> JsError ''RangeError'' ''Out of memory'')"

record attempt =
  compare_resp :: "compare_raw option news_body http"
  panic_resp :: "panic_raw option news_body http"
  synth_id :: "nat \<Rightarrow> string"
  elapsed :: nat
  fault :: "runtime_fault option"

text \<open>The cached list when the news cache holds a fresh entry.\<close>

definition fresh_news :: "api_state \<Rightarrow> NewsItem list option" where
  "fresh_news s =
     (case newsCache s of
        None \<Rightarrow> None
      | Some c \<Rightarrow> if now s - timestamp c < NEWS_CACHE_DURATION then Some (data c) else None)"

text \<open>\<open>newsCache?.data || []\<close>\<close>

definition cached_or_empty :: "api_state \<Rightarrow> NewsItem list" where
  "cached_or_empty s = (case newsCache s of None \<Rightarrow> [] | Some c \<Rightarrow> data c)"

text \<open>
  The state once the two adapters, started together by \<open>Promise.all\<close>, have settled:
  two requests were issued and \<open>elapsed\<close> milliseconds have passed. When the
  adapters have not settled once the 10000 ms timer is due, the timer calls
  \<open>controller.abort()\<close>; otherwise \<open>clearTimeout\<close> cancels it. The signal of the
  controller is handed to no request (the adapters take no argument and call
  \<open>fetch\<close> without a signal), so the call has no listener and the adapters' results do
  not depend on it.
\<close>

definition after_adapters :: "attempt \<Rightarrow> api_state \<Rightarrow> api_state" where
  "after_adapters a s =
     s\<lparr> now := now s + int (elapsed a), upstreamCalls := upstreamCalls s + 2,
        abortCalls := abortCalls s + (if elapsed a \<ge> 10000 then 1 else 0) \<rparr>"

text \<open>
  The state in which an attempt ends: the adapters have settled, unless the block
  raised before calling them.
\<close>

definition attempt_state :: "attempt \<Rightarrow> api_state \<Rightarrow> api_state" where
  "attempt_state a s = (if fault a = Some ReferenceError then s else after_adapters a s)"

definition timeout_error :: js_error where
  "timeout_error = JsError ''Error'' ''Request timeout - please try again''"

text \<open>
  \<open>fetchCryptoNews(retryCount)\<close>. The world \<open>w\<close> gives the attempt made at each value
  of the retry counter. The result is the rejection (\<open>Inl\<close>) or the \<open>Data\<close> list.
\<close>

function fetchCryptoNews ::
  "nat \<Rightarrow> (nat \<Rightarrow> attempt) \<Rightarrow> api_state \<Rightarrow> (js_error + NewsItem list) \<times> api_state" where
  "fetchCryptoNews retryCount w s =
     (case fresh_news s of
        Some cached \<Rightarrow> (Inr cached, s)
      | None \<Rightarrow>
        let a = w retryCount; s1 = attempt_state a s in
        (case fault a of
           None \<Rightarrow>
             let allNews = sortNews (fetchCryptoCompareNews (compare_resp a)
                                     @ fetchCryptoPanicNews (synth_id a) (panic_resp a))
             in (Inr allNews, s1\<lparr> newsCache := Some \<lparr> data = allNews, timestamp = now s1 \<rparr> \<rparr>)
         | Some f \<Rightarrow>
             if err_name (thrown f) = ''AbortError'' then (Inl timeout_error, s1)
             else if retryCount < maxRetries then
               fetchCryptoNews (retryCount + 1) w (delay (baseDelay * 2 ^ retryCount) s1)
             else (Inr (cached_or_empty s1), s1)))"
  by pat_completeness auto
termination
  by (relation "measure (\<lambda>(retryCount, w, s). maxRetries - retryCount)") auto

declare fetchCryptoNews.simps [simp del]

section \<open>Sentiment classification\<close>

text \<open>
  \<open>String.prototype.toUpperCase\<close> and \<open>trim\<close> on the ASCII range: the letters
  \<open>a\<close> to \<open>z\<close> are raised, and space, tab, line feed, vertical tab, form feed and
  carriage return are white space.
\<close>

definition upper_char :: "char \<Rightarrow> char" where
  "upper_char c =
     (case map_of (zip ''abcdefghijklmnopqrstuvwxyz'' ''ABCDEFGHIJKLMNOPQRSTUVWXYZ'') c of
        None \<Rightarrow> c
      | Some u \<Rightarrow> u)"

definition toUpperCase :: "string \<Rightarrow> string" where
  "toUpperCase t = map upper_char t"

definition white_space :: "char \<Rightarrow> bool" where
  "white_space c = (c \<in> set [CHR '' '', CHR 0x09, CHR 0x0A, CHR 0x0B, CHR 0x0C, CHR 0x0D])"

definition trim :: "string \<Rightarrow> string" where
  "trim t = rev (dropWhile white_space (rev (dropWhile white_space t)))"

text \<open>
  The outcome of the classification request as the \<open>try\<close> block sees it: it raises
  (the request is rejected, the response is not \<open>ok\<close>, the body does not parse, or
  the content is not a string), or it reads
  \<open>data.choices?.[0]?.message?.content\<close>, which is \<open>None\<close> when a link of that
  chain is missing.
\<close>

datatype classifier = ClassifierFailed | Content "string option"

record sentiment_call =
  reply :: classifier
  latency :: nat

definition fresh_sentiment :: "string \<Rightarrow> api_state \<Rightarrow> string option" where
  "fresh_sentiment text' s =
     (case sentimentCache s text' of
        None \<Rightarrow> None
      | Some c \<Rightarrow>
          if now s - timestamp c < SENTIMENT_CACHE_DURATION then Some (data c) else None)"

text \<open>\<open>x || 'NEUTRAL'\<close>\<close>

definition or_neutral :: "string \<Rightarrow> string" where
  "or_neutral x = (if x = [] then ''NEUTRAL'' else x)"

text \<open>
  \<open>analyzeSentiment(text)\<close>; the result is the \<open>content\<close> of the single choice
  it returns. The function never rejects.
\<close>

definition analyzeSentiment :: "string \<Rightarrow> sentiment_call \<Rightarrow> api_state \<Rightarrow> string \<times> api_state" where
  "analyzeSentiment text' call s =
     (case fresh_sentiment text' s of
        Some cached \<Rightarrow> (cached, s)
      | None \<Rightarrow>
          let s1 = s\<lparr> now := now s + int (latency call), upstreamCalls := upstreamCalls s + 1 \<rparr> in
          (case reply call of
             Content content \<Rightarrow>
               let sentiment' =
                     (case content of
                        None \<Rightarrow> ''NEUTRAL''
                      | Some c \<Rightarrow> or_neutral (toUpperCase (trim c)))
               in (if sentiment' \<in> set [''POSITIVE'', ''NEGATIVE''] then sentiment' else ''NEUTRAL'',
                   s1\<lparr> sentimentCache :=
                         (sentimentCache s1)(text' \<mapsto> \<lparr> data = sentiment', timestamp = now s1 \<rparr>) \<rparr>)
           | ClassifierFailed \<Rightarrow>
               (case sentimentCache s1 text' of
                  None \<Rightarrow> (''NEUTRAL'', s1)
                | Some c \<Rightarrow> (or_neutral (data c), s1))))"

section \<open>Market data\<close>

text \<open>The entry of one coin in the price response; a field is \<open>None\<close> when missing.\<close>

record coin =
  usd :: "real option"
  usd_24h_vol :: "real option"
  usd_market_cap :: "real option"
  usd_24h_change :: "real option"

text \<open>\<open>x || d\<close> on an optional number: a missing field and \<open>0\<close> are falsy.\<close>

definition or_else :: "real option \<Rightarrow> real \<Rightarrow> real" where
  "or_else x d = (case x of None \<Rightarrow> d | Some v \<Rightarrow> if v = 0 then d else v)"

text \<open>
  One call of \<open>fetchMarketData\<close> as seen from outside: the response (a parsed body
  is the object mapping coin ids to entries), the time until the response arrives,
  and the draws of \<open>Math.random()\<close> for the two mock snapshots, each in \<open>[0,1)\<close>.
\<close>

record market_call =
  market_resp :: "(string \<rightharpoonup> coin) http"
  market_latency :: nat
  rnd_mock :: "nat \<Rightarrow> real"
  rnd_fallback :: "nat \<Rightarrow> real"

definition mock_data :: "(nat \<Rightarrow> real) \<Rightarrow> MarketData" where
  "mock_data rnd =
     \<lparr> price = 45000 + (rnd 0 - 1/2) * 1000,
       volume24h = 25000000000 + (rnd 1 - 1/2) * 5000000000,
       marketCap = 850000000000 + (rnd 2 - 1/2) * 10000000000,
       dominance = 91/2 + (rnd 3 - 1/2) * 2,
       change24h = 5/2 + (rnd 4 - 1/2) \<rparr>"

text \<open>\<open>checkRateLimit\<close>\<close>

definition checkRateLimit :: "api_state \<Rightarrow> api_state" where
  "checkRateLimit s =
     (let now0 = now s;
          s1 = (if now0 - lastRequestTime s > timeWindow
                then s\<lparr> requestCount := 0, lastRequestTime := now0 \<rparr> else s);
          s2 = (if requestCount s1 \<ge> maxRequests then
                  (let waitTime = timeWindow - (now0 - lastRequestTime s1) in
                   if waitTime > 0 then
                     (let s' = delay waitTime s1
                      in s'\<lparr> requestCount := 0, lastRequestTime := now s' \<rparr>)
                   else s1)
                else s1)
      in s2\<lparr> requestCount := requestCount s2 + 1 \<rparr>)"

definition AbortError :: js_error where
  "AbortError = JsError ''AbortError'' ''The operation was aborted''"

text \<open>
  The request of \<open>fetchMarketData\<close> carries the signal of its \<open>AbortController\<close>: when
  no response has arrived once the 5000 ms timer is due, the request is rejected with
  an \<open>AbortError\<close> at that moment.
\<close>

definition market_fetch :: "market_call \<Rightarrow> (string \<rightharpoonup> coin) http \<times> nat" where
  "market_fetch c =
     (if market_latency c \<ge> 5000 then (Rejected AbortError, 5000)
      else (market_resp c, market_latency c))"

definition fresh_market :: "api_state \<Rightarrow> MarketData option" where
  "fresh_market s =
     (case marketDataCache s of
        None \<Rightarrow> None
      | Some c \<Rightarrow> if now s - timestamp c < MARKET_DATA_CACHE_DURATION then Some (data c) else None)"

definition store_market :: "MarketData \<Rightarrow> api_state \<Rightarrow> MarketData \<times> api_state" where
  "store_market d s = (d, s\<lparr> marketDataCache := Some \<lparr> data = d, timestamp = now s \<rparr> \<rparr>)"

text \<open>The inner \<open>try\<close> block of \<open>fetchMarketData\<close>, from the response on.\<close>

definition market_try ::
  "string \<Rightarrow> MarketData \<Rightarrow> (string \<rightharpoonup> coin) http \<Rightarrow> api_state
     \<Rightarrow> js_error + (MarketData \<times> api_state)" where
  "market_try symbol mockData resp s =
     (case resp of
        Rejected e \<Rightarrow> Inl e
      | Response status json \<Rightarrow>
          if status = 429 then Inr (store_market mockData s)
          else
            (case validateResponse status ''CoinGecko'' of
               Inl e \<Rightarrow> Inl e
             | Inr _ \<Rightarrow>
                 (case json of
                    None \<Rightarrow> Inl SyntaxError
                  | Some data' \<Rightarrow>
                      (case data' symbol of
                         None \<Rightarrow> Inr (store_market mockData s)
                       | Some coinData \<Rightarrow>
                           Inr (store_market
                             \<lparr> price = or_else (usd coinData) (price mockData),
                               volume24h = or_else (usd_24h_vol coinData) (volume24h mockData),
                               marketCap = or_else (usd_market_cap coinData) (marketCap mockData),
                               dominance = 91/2,
                               change24h = or_else (usd_24h_change coinData) (change24h mockData) \<rparr>
                             s)))))"

text \<open>
  The state when the request of \<open>fetchMarketData\<close> has settled: the rate limiter
  has been passed, one request was issued, and the time of the request has gone by.
\<close>

definition market_requested :: "market_call \<Rightarrow> api_state \<Rightarrow> api_state" where
  "market_requested c s =
     (let s1 = checkRateLimit s
      in s1\<lparr> now := now s1 + int (snd (market_fetch c)),
              upstreamCalls := upstreamCalls s1 + 1,
              abortCalls := abortCalls s1 + (if market_latency c \<ge> 5000 then 1 else 0) \<rparr>)"

text \<open>\<open>fetchMarketData(symbol)\<close>; it never rejects.\<close>

definition fetchMarketData :: "string \<Rightarrow> market_call \<Rightarrow> api_state \<Rightarrow> MarketData \<times> api_state" where
  "fetchMarketData symbol c s =
     (case fresh_market s of
        Some cached \<Rightarrow> (cached, s)
      | None \<Rightarrow>
          let mockData = mock_data (rnd_mock c);
              s2 = market_requested c s
          in (case market_try symbol mockData (fst (market_fetch c)) s2 of
                Inr result \<Rightarrow> result
              | Inl error \<Rightarrow>
                  (case marketDataCache s2 of
                     Some cached \<Rightarrow> (data cached, s2)
                   | None \<Rightarrow> store_market (mock_data (rnd_fallback c)) s2)))"

section \<open>Enrichment and the feed (App)\<close>

text \<open>\<open>String.prototype.includes\<close>: the pattern occurs at some position.\<close>

fun starts_with :: "string \<Rightarrow> string \<Rightarrow> bool" where
  "starts_with [] t = True"
| "starts_with (p # ps) [] = False"
| "starts_with (p # ps) (c # cs) = (p = c \<and> starts_with ps cs)"

fun includes_str :: "string \<Rightarrow> string \<Rightarrow> bool" where
  "includes_str [] pat = starts_with pat []"
| "includes_str (c # cs) pat = (starts_with pat (c # cs) \<or> includes_str cs pat)"

text \<open>
  \<open>/k1|k2|.../i.test(t)\<close> for literal alternatives: some alternative occurs at some
  position, characters being compared after canonicalization (upper case).
\<close>

fun starts_with_ci :: "string \<Rightarrow> string \<Rightarrow> bool" where
  "starts_with_ci [] t = True"
| "starts_with_ci (p # ps) [] = False"
| "starts_with_ci (p # ps) (c # cs) = (upper_char p = upper_char c \<and> starts_with_ci ps cs)"

fun search_ci :: "string \<Rightarrow> string \<Rightarrow> bool" where
  "search_ci pat [] = starts_with_ci pat []"
| "search_ci pat (c # cs) = (starts_with_ci pat (c # cs) \<or> search_ci pat cs)"

definition regex_test :: "string list \<Rightarrow> string \<Rightarrow> bool" where
  "regex_test alternatives t = list_ex (\<lambda>pat. search_ci pat t) alternatives"

definition urgent_keywords :: "string list" where
  "urgent_keywords = [''urgent'', ''breaking'', ''alert'', ''critical'', ''major'']"

definition price_keywords :: "string list" where
  "price_keywords = [''price'', ''market'', ''crash'', ''surge'', ''soar'', ''plunge'']"

text \<open>The \<open>reliability\<close> closure; \<open>r\<close> is the draw of \<open>Math.random()\<close>.\<close>

definition reliability_of :: "real \<Rightarrow> NewsItem \<Rightarrow> js_error + int" where
  "reliability_of r item =
     (case body item of
        None \<Rightarrow> Inl TypeError
      | Some b \<Rightarrow>
          let hasDetailedContent = (length b > 200);
              isVerifiedSource = includes_str (source item) ''CryptoCompare'';
              baseReliability = \<lfloor>r * 20\<rfloor> + 75;
              score1 = (if hasDetailedContent then baseReliability + 5 else baseReliability);
              score2 = (if isVerifiedSource then score1 + 5 else score1)
          in Inr (min score2 100))"

text \<open>The \<open>impact\<close> closure.\<close>

definition impact_of :: "string \<Rightarrow> string \<Rightarrow> Impact" where
  "impact_of title' sentiment' =
     (let hasUrgentKeywords = regex_test urgent_keywords title';
          hasPriceKeywords = regex_test price_keywords title';
          sentimentStrength = (if sentiment' = ''NEUTRAL'' then 0 else 1 :: int)
      in if hasUrgentKeywords \<or> (hasPriceKeywords \<and> sentimentStrength > 0) then High
         else if hasPriceKeywords \<or> sentimentStrength > 0 then Medium
         else Low)"

text \<open>The four draws of \<open>Math.random()\<close> one item can consume.\<close>

record draws =
  base_draw :: real
  fallback_draw :: real
  high_draw :: real
  medium_draw :: real

text \<open>
  The callback of \<open>chunk.map\<close>, given the content \<open>sentiment'\<close> that
  \<open>analyzeSentiment(item.title)\<close> resolved with.
\<close>

definition enrich :: "draws \<Rightarrow> string \<Rightarrow> NewsItem \<Rightarrow> NewsItem" where
  "enrich d sentiment' item =
     (case reliability_of (base_draw d) item of
        Inr reliability' \<Rightarrow>
          item\<lparr> sentiment := Some sentiment', reliability := Some reliability',
                impact := Some (impact_of (title item) sentiment') \<rparr>
      | Inl error \<Rightarrow>
          item\<lparr> sentiment := Some ''NEUTRAL'',
                reliability := Some (\<lfloor>fallback_draw d * 15\<rfloor> + 70),
                impact := Some (if high_draw d > 7/10 then High
                                else if medium_draw d > 1/2 then Medium else Low) \<rparr>)"

definition processItem ::
  "draws \<Rightarrow> sentiment_call \<Rightarrow> NewsItem \<Rightarrow> api_state \<Rightarrow> NewsItem \<times> api_state" where
  "processItem d call item s =
     (let (sentiment', s') = analyzeSentiment (title item) call s
      in (enrich d sentiment' item, s'))"

text \<open>\<open>Array.prototype.findIndex\<close>: \<open>-1\<close> when no element satisfies the predicate.\<close>

fun findIndex :: "('a \<Rightarrow> bool) \<Rightarrow> 'a list \<Rightarrow> int" where
  "findIndex P [] = -1"
| "findIndex P (x # xs) =
     (if P x then 0 else (let i = findIndex P xs in if i = -1 then -1 else i + 1))"

text \<open>The callback of \<open>processedChunk.forEach\<close> inside the updater of \<open>setNews\<close>.\<close>

definition upsert :: "NewsItem list \<Rightarrow> NewsItem \<Rightarrow> NewsItem list" where
  "upsert uniqueNews item =
     (let index = findIndex (\<lambda>n. item_id n = item_id item) uniqueNews
      in if index = -1 then uniqueNews @ [item]
         else uniqueNews[nat index := item])"

text \<open>The updater passed to \<open>setNews\<close>: from the previous feed to the next one.\<close>

definition setNews :: "NewsItem list \<Rightarrow> NewsItem list \<Rightarrow> NewsItem list" where
  "setNews prev processedChunk = sortNews (foldl upsert prev processedChunk)"

text \<open>
  The feed after a sequence of processed chunks, starting from the initial value
  \<open>[]\<close> of the \<open>news\<close> state.
\<close>

definition feed_after :: "NewsItem list list \<Rightarrow> NewsItem list" where
  "feed_after chunks = foldl setNews [] chunks"

section \<open>Derived notions used in the statements\<close>

text \<open>The two adapters' results of one attempt, before and after the sort.\<close>

definition gathered :: "attempt \<Rightarrow> NewsItem list" where
  "gathered a = fetchCryptoCompareNews (compare_resp a)
                  @ fetchCryptoPanicNews (synth_id a) (panic_resp a)"

definition merged :: "attempt \<Rightarrow> NewsItem list" where
  "merged a = sortNews (fetchCryptoCompareNews (compare_resp a)
                         @ fetchCryptoPanicNews (synth_id a) (panic_resp a))"

text \<open>
  A title matches a keyword list when some keyword occurs in it at some position,
  letter case ignored.
\<close>

definition occurs_ci :: "string \<Rightarrow> string \<Rightarrow> bool" where
  "occurs_ci kw t =
     (\<exists>i \<in> set [0..<Suc (length t)]. take (length kw) (drop i (toUpperCase t)) = toUpperCase kw)"

definition matches_keywords :: "string list \<Rightarrow> string \<Rightarrow> bool" where
  "matches_keywords kws t = (\<exists>kw \<in> set kws. occurs_ci kw t)"

text \<open>The impact rule in the words of the specification.\<close>

definition spec_impact :: "string \<Rightarrow> string \<Rightarrow> Impact" where
  "spec_impact t s =
     (if matches_keywords urgent_keywords t
         \<or> (matches_keywords price_keywords t \<and> s \<noteq> ''NEUTRAL'')
      then High
      else if matches_keywords price_keywords t \<or> s \<noteq> ''NEUTRAL'' then Medium
      else Low)"

text \<open>
  \<open>a.published_on >= b.published_on\<close>: false as soon as one of the two is not a
  number.
\<close>

definition newer_or_equal :: "NewsItem \<Rightarrow> NewsItem \<Rightarrow> bool" where
  "newer_or_equal a b =
     (case published_on a of
        None \<Rightarrow> False
      | Some x \<Rightarrow> (case published_on b of None \<Rightarrow> False | Some y \<Rightarrow> x \<ge> y))"

text \<open>Newest first: non-increasing in \<open>published_on\<close>.\<close>

definition sorted_desc :: "NewsItem list \<Rightarrow> bool" where
  "sorted_desc xs = sorted_wrt newer_or_equal xs"

text \<open>Every item of the list carries a number as its date.\<close>

definition dated :: "NewsItem list \<Rightarrow> bool" where
  "dated xs = list_all (\<lambda>x. published_on x \<noteq> None) xs"

text \<open>The date of an item as a sort key; used for dated lists only.\<close>

definition date_key :: "NewsItem \<Rightarrow> int" where
  "date_key a = (case published_on a of None \<Rightarrow> 0 | Some d \<Rightarrow> d)"

text \<open>
  The provider of an item, read off its provider-qualified label. The trusted provider
  is CryptoCompare.
\<close>

definition from_trusted_provider :: "NewsItem \<Rightarrow> bool" where
  "from_trusted_provider item = starts_with ''CryptoCompare - '' (source item)"

text \<open>
  The reliability rule in the words of the specification, for the draw \<open>r\<close> and an
  item with body \<open>b\<close>.
\<close>

definition spec_reliability :: "real \<Rightarrow> string \<Rightarrow> NewsItem \<Rightarrow> int" where
  "spec_reliability r b item =
     min (\<lfloor>r * 20\<rfloor> + 75 + (if length b > 200 then 5 else 0)
            + (if from_trusted_provider item then 5 else 0)) 100"

definition cache_sorted :: "api_state \<Rightarrow> bool" where
  "cache_sorted s = (case newsCache s of None \<Rightarrow> True | Some c \<Rightarrow> sorted_desc (data c))"

text \<open>The first entry of a list that carries the id \<open>i\<close>.\<close>

definition lookup_id :: "jsval \<Rightarrow> NewsItem list \<Rightarrow> NewsItem option" where
  "lookup_id i xs = find (\<lambda>n. item_id n = i) xs"

text \<open>
  The upstream outcomes of a news adapter that are failures: the request is rejected
  (network error, timeout), the status is not a success, the body does not parse, or
  the body lacks the expected array.
\<close>

fun failed_response :: "'a news_body http \<Rightarrow> bool" where
  "failed_response (Rejected e) = True"
| "failed_response (Response status json) = (\<not> ok status \<or> json = None \<or> json = Some NoArray)"

text \<open>
  The two failures \<open>fetchMarketData\<close> handles inside its \<open>try\<close> block: status 429,
  and a parsed body without an entry for the symbol.
\<close>

fun mock_branch :: "string \<Rightarrow> (string \<rightharpoonup> coin) http \<Rightarrow> bool" where
  "mock_branch symbol (Rejected e) = False"
| "mock_branch symbol (Response status json) =
     (status = 429 \<or> (ok status \<and> (case json of None \<Rightarrow> False | Some d \<Rightarrow> d symbol = None)))"

text \<open>
  The failures that reach its \<open>catch\<close> clause: a rejected request (network error,
  or the abort at the timeout), an error status other than 429, a body that does not
  parse.
\<close>

fun caught_failure :: "(string \<rightharpoonup> coin) http \<Rightarrow> bool" where
  "caught_failure (Rejected e) = True"
| "caught_failure (Response status json) = (status \<noteq> 429 \<and> (\<not> ok status \<or> json = None))"

section \<open>Concrete inputs\<close>

definition sample_item :: NewsItem where
  "sample_item =
     \<lparr> item_id = Str ''1'', title = ''Bitcoin price falls'', url = [],
       source = ''CryptoCompare - x'', published_on = Some 10, imageurl = [],
       body = Some ''text'',
       sentiment = None, reliability = None, impact = None \<rparr>"

definition sample_draws :: draws where
  "sample_draws = \<lparr> base_draw = 1/2, fallback_draw = 1/2, high_draw = 1/2, medium_draw = 1/2 \<rparr>"

definition mixed_call :: sentiment_call where
  "mixed_call = \<lparr> reply = Content (Some ''Mixed''), latency = 200 \<rparr>"

text \<open>One second after a first classification of the text \<open>BTC rallies\<close>.\<close>

definition after_first_call :: api_state where
  "after_first_call =
     advance 1000 (snd (analyzeSentiment ''BTC rallies'' mixed_call (initial_state 0)))"

definition no_synth :: "nat \<Rightarrow> string" where
  "no_synth i = ''synthetic''"

text \<open>An attempt in which a statement of the \<open>try\<close> block raises.\<close>

definition broken_attempt :: attempt where
  "broken_attempt =
     \<lparr> compare_resp = Response 200 (Some NoArray), panic_resp = Response 200 (Some NoArray),
       synth_id = no_synth, elapsed = 50,
       fault = Some RangeError \<rparr>"

definition broken_world :: "nat \<Rightarrow> attempt" where
  "broken_world k = broken_attempt"


definition slow_item :: compare_raw where
  "slow_item =
     \<lparr> cc_id = Str ''42'', cc_title = ''Bitcoin steady'', cc_url = ''https://news/42'',
       cc_source = ''coindesk'', cc_published_on = Some 1700000000, cc_imageurl = [],
       cc_body = Some ''text'' \<rparr>"

text \<open>The normalized form of \<open>slow_item\<close>.\<close>

definition slow_news :: NewsItem where
  "slow_news =
     \<lparr> item_id = Str ''42'', title = ''Bitcoin steady'', url = ''https://news/42'',
       source = ''CryptoCompare - coindesk'', published_on = Some 1700000000,
       imageurl = [],
       body = Some ''text'', sentiment = None, reliability = None, impact = None \<rparr>"

text \<open>Both providers answer after 15 seconds, CryptoCompare with one item.\<close>

definition slow_attempt :: attempt where
  "slow_attempt =
     \<lparr> compare_resp = Response 200 (Some (Array [Some slow_item])),
       panic_resp = Response 200 (Some (Array [])), synth_id = no_synth, elapsed = 15000,
       fault = None \<rparr>"

definition slow_world :: "nat \<Rightarrow> attempt" where
  "slow_world k = slow_attempt"

text \<open>CryptoCompare answers with one item, CryptoPanic with status 503.\<close>

definition half_attempt :: attempt where
  "half_attempt = slow_attempt\<lparr> panic_resp := Response 503 None, elapsed := 300 \<rparr>"

definition half_world :: "nat \<Rightarrow> attempt" where
  "half_world k = half_attempt"

text \<open>A CryptoPanic item with the id of \<open>slow_item\<close>, published 500 seconds later.\<close>

definition dup_panic :: panic_raw where
  "dup_panic =
     \<lparr> cp_id = Str ''42'', cp_title = ''Bitcoin steady (update)'', cp_url = ''https://panic/42'',
       cp_source = Some ''coindesk'', cp_published_ms = Some 1700000500000, cp_image = None,
       cp_description = None, cp_sentiment = None \<rparr>"

definition panic_news :: NewsItem where
  "panic_news =
     \<lparr> item_id = Str ''42'', title = ''Bitcoin steady (update)'', url = ''https://panic/42'',
       source = ''CryptoPanic - coindesk'', published_on = Some 1700000500,
       imageurl = [],
       body = Some [], sentiment = None, reliability = None, impact = None \<rparr>"

definition dup_attempt :: attempt where
  "dup_attempt =
     slow_attempt\<lparr> panic_resp := Response 200 (Some (Array [Some dup_panic])), elapsed := 300 \<rparr>"

definition dup_world :: "nat \<Rightarrow> attempt" where
  "dup_world k = dup_attempt"





text \<open>A CryptoPanic item without a date, and the item it is normalized to.\<close>

definition undated_panic :: panic_raw where
  "undated_panic =
     \<lparr> cp_id = Str ''77'', cp_title = ''Ether quiet'', cp_url = ''https://panic/77'',
       cp_source = Some ''decrypt'', cp_published_ms = None, cp_image = None,
       cp_description = None, cp_sentiment = None \<rparr>"

definition undated_news :: NewsItem where
  "undated_news =
     \<lparr> item_id = Str ''77'', title = ''Ether quiet'', url = ''https://panic/77'',
       source = ''CryptoPanic - decrypt'', published_on = None, imageurl = [],
       body = Some [], sentiment = None, reliability = None, impact = None \<rparr>"

text \<open>
  CryptoCompare delivers \<open>slow_item\<close>; CryptoPanic delivers the item without a date
  and then \<open>dup_panic\<close>, which is 500 seconds newer than \<open>slow_item\<close>.
\<close>

definition undated_attempt :: attempt where
  "undated_attempt =
     slow_attempt\<lparr> panic_resp := Response 200 (Some (Array [Some undated_panic, Some dup_panic])),
                   elapsed := 300 \<rparr>"

definition undated_world :: "nat \<Rightarrow> attempt" where
  "undated_world k = undated_attempt"

text \<open>
  A CryptoPanic item whose source title names CryptoCompare, and the item it is
  normalized to.
\<close>

definition relay_panic :: panic_raw where
  "relay_panic =
     \<lparr> cp_id = Str ''88'', cp_title = ''Index update'', cp_url = ''https://panic/88'',
       cp_source = Some ''CryptoCompare Blog'', cp_published_ms = Some 1700000600000,
       cp_image = None, cp_description = None, cp_sentiment = None \<rparr>"

definition relay_news :: NewsItem where
  "relay_news =
     \<lparr> item_id = Str ''88'', title = ''Index update'', url = ''https://panic/88'',
       source = ''CryptoPanic - CryptoCompare Blog'', published_on = Some 1700000600,
       imageurl = [], body = Some [], sentiment = None, reliability = None, impact = None \<rparr>"

text \<open>Draws close to 1, and an item of the trusted provider with a long body.\<close>

definition high_draws :: draws where
  "high_draws =
     \<lparr> base_draw = 99/100, fallback_draw = 99/100, high_draw = 1/2, medium_draw = 1/2 \<rparr>"

definition long_item :: NewsItem where
  "long_item = sample_item\<lparr> body := Some (replicate 201 (CHR ''a'')) \<rparr>"

definition half :: "nat \<Rightarrow> real" where
  "half i = 1/2"

definition btc_prices :: "string \<rightharpoonup> coin" where
  "btc_prices symbol =
     (if symbol = ''bitcoin''
      then Some \<lparr> usd = Some 43000, usd_24h_vol = Some 20000000000,
                  usd_market_cap = Some 840000000000, usd_24h_change = Some (-1) \<rparr>
      else None)"

definition good_call :: market_call where
  "good_call = \<lparr> market_resp = Response 200 (Some btc_prices), market_latency = 100,
                  rnd_mock = half, rnd_fallback = half \<rparr>"

definition offline_call :: market_call where
  "offline_call = good_call\<lparr> market_resp := Rejected (JsError ''TypeError'' ''Failed to fetch'') \<rparr>"

definition limited_call :: market_call where
  "limited_call = good_call\<lparr> market_resp := Response 429 None \<rparr>"

definition real_snapshot :: MarketData where
  "real_snapshot = \<lparr> price = 43000, volume24h = 20000000000, marketCap = 840000000000,
       dominance = 91/2, change24h = -1 \<rparr>"

definition mock_snapshot :: MarketData where
  "mock_snapshot = \<lparr> price = 45000, volume24h = 25000000000, marketCap = 850000000000,
       dominance = 91/2, change24h = 5/2 \<rparr>"

text \<open>31 seconds after a successful call at clock 0.\<close>

definition market_stale :: api_state where
  "market_stale = advance 31000 (snd (fetchMarketData ''bitcoin'' good_call (initial_state 0)))"

section \<open>The steps of \<open>fetchCryptoNews\<close>\<close>

lemma thrown_not_abort: "err_name (thrown f) \<noteq> ''AbortError''"
  by (cases f) (simp_all add: thrown_def)

lemma fetch_hit:
  "fresh_news s = Some cached \<Longrightarrow> fetchCryptoNews k w s = (Inr cached, s)"
  by (subst fetchCryptoNews.simps) simp

lemma fetch_ok:
  "fresh_news s = None \<Longrightarrow> fault (w k) = None \<Longrightarrow>
   fetchCryptoNews k w s =
     (Inr (merged (w k)),
      (after_adapters (w k) s)\<lparr> newsCache :=
         Some \<lparr> data = merged (w k), timestamp = now (after_adapters (w k) s) \<rparr> \<rparr>)"
  by (subst fetchCryptoNews.simps) (simp add: Let_def merged_def attempt_state_def)

lemma fetch_retry:
  "fresh_news s = None \<Longrightarrow> fault (w k) = Some f \<Longrightarrow> k < maxRetries \<Longrightarrow>
   fetchCryptoNews k w s =
     fetchCryptoNews (Suc k) w (delay (baseDelay * 2 ^ k) (attempt_state (w k) s))"
  by (subst fetchCryptoNews.simps) (simp add: Let_def thrown_not_abort)

lemma fetch_give_up:
  "fresh_news s = None \<Longrightarrow> fault (w k) = Some f \<Longrightarrow> \<not> k < maxRetries \<Longrightarrow>
   fetchCryptoNews k w s = (Inr (cached_or_empty (attempt_state (w k) s)), attempt_state (w k) s)"
  by (subst fetchCryptoNews.simps) (simp add: Let_def thrown_not_abort)

lemma fresh_initial: "fresh_news (initial_state t) = None"
  by (simp add: fresh_news_def initial_state_def)


lemma cache_attempt_state:
  "newsCache (attempt_state a s) = newsCache s" "delays (attempt_state a s) = delays s"
  by (simp_all add: attempt_state_def after_adapters_def)

section \<open>The sort\<close>

lemma mset_insert_back: "mset (insert_back x prefix) = add_mset x (mset prefix)"
  by (induction prefix) auto

lemma mset_foldl_insert_back:
  "mset (foldl (\<lambda>prefix element. insert_back element prefix) acc xs) = mset acc + mset xs"
  by (induction xs arbitrary: acc) (simp_all add: mset_insert_back)

lemma mset_sortNews: "mset (sortNews xs) = mset xs"
  by (simp add: sortNews_def mset_foldl_insert_back)

lemma set_sortNews: "set (sortNews xs) = set xs"
  using mset_sortNews [of xs] by (rule mset_eq_setD)

lemma dated_iff: "dated xs \<longleftrightarrow> (\<forall>x\<in>set xs. published_on x \<noteq> None)"
  by (simp add: dated_def list_all_iff)

lemma greater_zero_dated:
  "published_on a \<noteq> None \<Longrightarrow> published_on b \<noteq> None \<Longrightarrow>
   greater_zero (comparefn a b) \<longleftrightarrow> date_key a < date_key b"
  by (auto simp: greater_zero_def comparefn_def date_key_def)

lemma newer_or_equal_dated:
  "published_on a \<noteq> None \<Longrightarrow> published_on b \<noteq> None \<Longrightarrow>
   newer_or_equal a b \<longleftrightarrow> date_key b \<le> date_key a"
  by (auto simp: newer_or_equal_def date_key_def)

lemma set_insert_back: "set (insert_back x prefix) = insert x (set prefix)"
  using mset_insert_back [of x prefix] by (metis set_mset_add_mset_insert set_mset_mset)

text \<open>The reversed prefix stays ascending when every date is a number.\<close>

lemma insert_back_ascending:
  assumes "published_on x \<noteq> None" "dated prefix"
    and "sorted_wrt (\<lambda>a b. date_key a \<le> date_key b) prefix"
  shows "sorted_wrt (\<lambda>a b. date_key a \<le> date_key b) (insert_back x prefix)"
  using assms
proof (induction prefix)
  case Nil
  show ?case by simp
next
  case (Cons tmp rest)
  have t: "published_on tmp \<noteq> None" and r: "dated rest"
    using Cons.prems(2) by (simp_all add: dated_def)
  show ?case
  proof (cases "greater_zero (comparefn tmp x)")
    case True
    then have "date_key tmp < date_key x"
      using greater_zero_dated [OF t Cons.prems(1)] by simp
    moreover have "sorted_wrt (\<lambda>a b. date_key a \<le> date_key b) (insert_back x rest)"
      using Cons.IH Cons.prems(1,3) r by simp
    ultimately show ?thesis
      using True Cons.prems(3) by (auto simp: set_insert_back)
  next
    case False
    then have "date_key x \<le> date_key tmp"
      using greater_zero_dated [OF t Cons.prems(1)] by simp
    then show ?thesis
      using False Cons.prems(3) by auto
  qed
qed

lemma foldl_insert_back_ascending:
  assumes "dated xs" "dated acc" "sorted_wrt (\<lambda>a b. date_key a \<le> date_key b) acc"
  shows "sorted_wrt (\<lambda>a b. date_key a \<le> date_key b)
           (foldl (\<lambda>prefix element. insert_back element prefix) acc xs)"
  using assms
proof (induction xs arbitrary: acc)
  case Nil
  then show ?case by simp
next
  case (Cons x xs)
  have x: "published_on x \<noteq> None" and xs: "dated xs"
    using Cons.prems(1) by (simp_all add: dated_def)
  have "dated (insert_back x acc)"
    using x Cons.prems(2) by (simp add: dated_iff set_insert_back)
  moreover have "sorted_wrt (\<lambda>a b. date_key a \<le> date_key b) (insert_back x acc)"
    using x Cons.prems(2,3) by (rule insert_back_ascending)
  ultimately show ?case using Cons.IH [OF xs] by simp
qed

lemma sortNews_descending:
  assumes "dated xs"
  shows "sorted_wrt (\<lambda>a b. date_key b \<le> date_key a) (sortNews xs)"
proof -
  have "sorted_wrt (\<lambda>a b. date_key a \<le> date_key b)
          (foldl (\<lambda>prefix element. insert_back element prefix) [] xs)"
    using assms by (intro foldl_insert_back_ascending) (simp_all add: dated_def)
  then show ?thesis by (simp add: sortNews_def sorted_wrt_rev)
qed

lemma sorted_desc_dated:
  "dated xs \<Longrightarrow> sorted_desc xs \<longleftrightarrow> sorted_wrt (\<lambda>a b. date_key b \<le> date_key a) xs"
  by (induction xs) (auto simp: sorted_desc_def dated_def list_all_iff newer_or_equal_dated)

lemma sorted_desc_sortNews: "dated xs \<Longrightarrow> sorted_desc (sortNews xs)"
proof -
  assume d: "dated xs"
  then have "dated (sortNews xs)" by (simp add: dated_iff set_sortNews)
  then show ?thesis using sortNews_descending [OF d] by (simp add: sorted_desc_dated)
qed

text \<open>
  The sort is stable: items with the same date keep their order. On a dated list it is
  therefore the stable sort by descending date, the one result the language allows.
\<close>

lemma filter_insert_back:
  assumes "published_on x \<noteq> None" "dated prefix"
  shows "filter (\<lambda>y. date_key y = c) (insert_back x prefix)
           = (if date_key x = c then x # filter (\<lambda>y. date_key y = c) prefix
              else filter (\<lambda>y. date_key y = c) prefix)"
  using assms
proof (induction prefix)
  case Nil
  show ?case by simp
next
  case (Cons tmp rest)
  have t: "published_on tmp \<noteq> None" and r: "dated rest"
    using Cons.prems(2) by (simp_all add: dated_def)
  show ?case
  proof (cases "greater_zero (comparefn tmp x)")
    case True
    then have "date_key tmp < date_key x"
      using greater_zero_dated [OF t Cons.prems(1)] by simp
    then show ?thesis
      using True Cons.IH [OF Cons.prems(1) r] by auto
  next
    case False
    then show ?thesis by simp
  qed
qed

lemma filter_foldl_insert_back:
  assumes "dated xs" "dated acc"
  shows "filter (\<lambda>y. date_key y = c) (foldl (\<lambda>prefix element. insert_back element prefix) acc xs)
           = rev (filter (\<lambda>y. date_key y = c) xs) @ filter (\<lambda>y. date_key y = c) acc"
  using assms
proof (induction xs arbitrary: acc)
  case Nil
  show ?case by simp
next
  case (Cons x xs)
  have x: "published_on x \<noteq> None" and xs: "dated xs"
    using Cons.prems(1) by (simp_all add: dated_def)
  have d: "dated (insert_back x acc)"
    using x Cons.prems(2) by (simp add: dated_iff set_insert_back)
  show ?case
    using Cons.IH [OF xs d] filter_insert_back [OF x Cons.prems(2), of c] by simp
qed

lemma sortNews_stable_sort:
  assumes "dated xs"
  shows "sortNews xs = sort_key (\<lambda>a. - date_key a) xs"
proof (rule properties_for_sort_key [symmetric])
  show "mset (sortNews xs) = mset xs" by (rule mset_sortNews)
next
  fix k
  have "filter (\<lambda>y. date_key y = date_key k)
          (foldl (\<lambda>prefix element. insert_back element prefix) [] xs)
          = filter (\<lambda>y. date_key y = date_key k) (rev xs)"
    using filter_foldl_insert_back [OF assms, of "[]" "date_key k"]
    by (simp add: dated_def rev_filter)
  then have "filter (\<lambda>y. date_key y = date_key k) (sortNews xs)
          = filter (\<lambda>y. date_key y = date_key k) xs"
    unfolding sortNews_def by (metis rev_filter rev_rev_ident)
  moreover have "(\<lambda>x. - date_key k = - date_key x) = (\<lambda>y. date_key y = date_key k)"
    by auto
  ultimately show "filter (\<lambda>x. - date_key k = - date_key x) (sortNews xs)
          = filter (\<lambda>x. - date_key k = - date_key x) xs"
    by simp
next
  have "sorted_wrt (\<lambda>a b. - date_key a \<le> - date_key b) (sortNews xs)"
    using sortNews_descending [OF assms] by simp
  then show "sorted (map (\<lambda>a. - date_key a) (sortNews xs))" by (simp add: sorted_map)
qed

text \<open>
  A list of two or more items, one of them without a date, is not newest first in
  whatever order its items come.
\<close>

lemma undated_never_sorted:
  assumes "x \<in> set xs" "published_on x = None" "2 \<le> length xs"
  shows "\<not> sorted_desc xs"
proof
  assume sorted: "sorted_desc xs"
  from assms(1) obtain i where i: "i < length xs" "xs ! i = x" by (auto simp: in_set_conv_nth)
  have two: "0 < length xs" "1 < length xs" using assms(3) by linarith+
  obtain j where j: "j < length xs" "j \<noteq> i"
  proof (cases "i = 0")
    case True
    then show ?thesis using that [of 1] two by simp
  next
    case False
    then show ?thesis using that [of 0] two by simp
  qed
  have no: "\<not> newer_or_equal x y" "\<not> newer_or_equal y x" for y
    using assms(2) by (simp_all add: newer_or_equal_def split: option.splits)
  from sorted have all: "\<forall>a b. a < b \<longrightarrow> b < length xs \<longrightarrow> newer_or_equal (xs ! a) (xs ! b)"
    by (simp add: sorted_desc_def sorted_wrt_iff_nth_less)
  show False
  proof (cases "i < j")
    case True
    then have "newer_or_equal (xs ! i) (xs ! j)" using all j by blast
    then show False using i no by simp
  next
    case False
    then have "j < i" using j by simp
    then have "newer_or_equal (xs ! j) (xs ! i)" using all i by blast
    then show False using i no by simp
  qed
qed

section \<open>Evaluation of the concrete inputs\<close>

lemma merged_slow: "merged slow_attempt = [slow_news]"
  by (simp add: merged_def slow_attempt_def sortNews_def fetchCryptoCompareNews_def
      fetchCryptoPanicNews_def compare_try_def panic_try_def validateResponse_def ok_def
      compare_item_def slow_item_def slow_news_def)


lemma merged_undated: "merged undated_attempt = [slow_news, undated_news, panic_news]"
  by (simp add: merged_def undated_attempt_def slow_attempt_def sortNews_def fetchCryptoCompareNews_def
      fetchCryptoPanicNews_def compare_try_def panic_try_def validateResponse_def ok_def
      compare_item_def panic_item_def or_empty_def slow_item_def dup_panic_def undated_panic_def
      slow_news_def panic_news_def undated_news_def comparefn_def greater_zero_def)

lemma merged_dup: "merged dup_attempt = [panic_news, slow_news]"
  by (simp add: merged_def dup_attempt_def slow_attempt_def sortNews_def fetchCryptoCompareNews_def
      fetchCryptoPanicNews_def compare_try_def panic_try_def validateResponse_def ok_def
      compare_item_def panic_item_def or_empty_def slow_item_def dup_panic_def slow_news_def
      panic_news_def comparefn_def greater_zero_def)

lemma fetch_dup_initial:
  "fetchCryptoNews 0 dup_world (initial_state 0) =
     (Inr [panic_news, slow_news],
      (after_adapters dup_attempt (initial_state 0))\<lparr> newsCache :=
         Some \<lparr> data = [panic_news, slow_news],
                timestamp = now (after_adapters dup_attempt (initial_state 0)) \<rparr> \<rparr>)"
proof -
  have "fault (dup_world 0) = None" by (simp add: dup_world_def dup_attempt_def slow_attempt_def)
  then show ?thesis
    using fetch_ok [of "initial_state 0" dup_world 0] fresh_initial
    by (simp add: dup_world_def merged_dup)
qed


section \<open>Retry with exponential backoff\<close>





section \<open>Sentiment coercion\<close>

lemma upper_mixed: "toUpperCase (trim ''Mixed'') = ''MIXED''"
  by (simp add: toUpperCase_def trim_def white_space_def upper_char_def)

text \<open>
  C5. The classifier answers \<open>Mixed\<close> for a text. The first call returns the coerced
  value \<open>NEUTRAL\<close> but stores the uncoerced \<open>MIXED\<close>; one second later the cache
  entry is fresh, and every call for the same text returns \<open>MIXED\<close> from it, which
  is none of the three sentiment values.
\<close>

theorem cached_sentiment_not_coerced:
  "fst (analyzeSentiment ''BTC rallies'' mixed_call (initial_state 0)) = ''NEUTRAL''
   \<and> fresh_sentiment ''BTC rallies'' after_first_call = Some ''MIXED''
   \<and> analyzeSentiment ''BTC rallies'' call after_first_call = (''MIXED'', after_first_call)
   \<and> ''MIXED'' \<notin> set [''POSITIVE'', ''NEUTRAL'', ''NEGATIVE'']"
  by (simp add: analyzeSentiment_def fresh_sentiment_def mixed_call_def initial_state_def
      after_first_call_def advance_def or_neutral_def upper_mixed SENTIMENT_CACHE_DURATION_def)

section \<open>Impact\<close>

lemma starts_with_ci_take:
  "starts_with_ci pat t \<longleftrightarrow> take (length pat) (toUpperCase t) = toUpperCase pat"
  by (induction pat t rule: starts_with_ci.induct) (auto simp: toUpperCase_def)

lemma search_ci_drop:
  "search_ci pat t \<longleftrightarrow> (\<exists>i\<le>length t. starts_with_ci pat (drop i t))"
proof (induction t)
  case Nil
  show ?case by simp
next
  case (Cons c cs)
  have "(\<exists>i\<le>length (c # cs). starts_with_ci pat (drop i (c # cs)))
        \<longleftrightarrow> starts_with_ci pat (c # cs) \<or> (\<exists>i\<le>length cs. starts_with_ci pat (drop i cs))"
  proof
    assume "\<exists>i\<le>length (c # cs). starts_with_ci pat (drop i (c # cs))"
    then obtain i where i: "i \<le> length (c # cs)" "starts_with_ci pat (drop i (c # cs))"
      by blast
    show "starts_with_ci pat (c # cs) \<or> (\<exists>i\<le>length cs. starts_with_ci pat (drop i cs))"
    proof (cases i)
      case 0
      with i show ?thesis by simp
    next
      case (Suc j)
      with i have "j \<le> length cs" "starts_with_ci pat (drop j cs)" by simp_all
      then show ?thesis by blast
    qed
  next
    assume "starts_with_ci pat (c # cs) \<or> (\<exists>i\<le>length cs. starts_with_ci pat (drop i cs))"
    then show "\<exists>i\<le>length (c # cs). starts_with_ci pat (drop i (c # cs))"
    proof
      assume "starts_with_ci pat (c # cs)"
      then have "starts_with_ci pat (drop 0 (c # cs))" by simp
      then show ?thesis by blast
    next
      assume "\<exists>i\<le>length cs. starts_with_ci pat (drop i cs)"
      then obtain j where "j \<le> length cs" "starts_with_ci pat (drop j cs)" by blast
      then have "Suc j \<le> length (c # cs)" "starts_with_ci pat (drop (Suc j) (c # cs))"
        by simp_all
      then show ?thesis by blast
    qed
  qed
  with Cons show ?case by simp
qed

lemma occurs_ci_le:
  "occurs_ci kw t \<longleftrightarrow>
     (\<exists>i\<le>length t. take (length kw) (drop i (toUpperCase t)) = toUpperCase kw)"
  unfolding occurs_ci_def by (simp only: set_upt Bex_def atLeastLessThan_iff less_Suc_eq_le) auto

text \<open>The keyword occurs in the title as a contiguous piece, up to letter case.\<close>

lemma occurs_ci_infix:
  "occurs_ci kw t \<longleftrightarrow> (\<exists>p q. toUpperCase t = p @ toUpperCase kw @ q)"
proof
  assume "occurs_ci kw t"
  then obtain i where "take (length kw) (drop i (toUpperCase t)) = toUpperCase kw"
    by (auto simp: occurs_ci_le)
  then have "toUpperCase t
      = take i (toUpperCase t) @ toUpperCase kw @ drop (length kw) (drop i (toUpperCase t))"
    by (metis append_take_drop_id)
  then show "\<exists>p q. toUpperCase t = p @ toUpperCase kw @ q" by blast
next
  assume "\<exists>p q. toUpperCase t = p @ toUpperCase kw @ q"
  then obtain p q where pq: "toUpperCase t = p @ toUpperCase kw @ q" by blast
  have "length p \<le> length t" using arg_cong [OF pq, of length] by (simp add: toUpperCase_def)
  moreover have "take (length kw) (drop (length p) (toUpperCase t)) = toUpperCase kw"
    using pq by (simp add: toUpperCase_def)
  ultimately show "occurs_ci kw t" unfolding occurs_ci_le by blast
qed

lemma search_ci_occurs: "search_ci pat t = occurs_ci pat t"
  by (simp add: search_ci_drop occurs_ci_le starts_with_ci_take toUpperCase_def drop_map)

lemma regex_test_matches: "regex_test kws t = matches_keywords kws t"
  by (simp add: regex_test_def matches_keywords_def list_ex_iff search_ci_occurs)

lemma impact_of_spec: "impact_of t s = spec_impact t s"
  by (simp add: impact_of_def spec_impact_def regex_test_matches)

text \<open>
  C8. For every item on the success path of enrichment (its body is present, so the
  \<open>try\<close> block completes), the impact stored is the one the specification's rule
  gives for the title and the sentiment: High if the title matches the urgency
  keywords or matches the market keywords with a non-neutral sentiment, Medium if it
  matches the market keywords or the sentiment is non-neutral, Low otherwise.
\<close>

theorem impact_derivation:
  "body item = Some b \<Longrightarrow> impact (enrich d s item) = Some (spec_impact (title item) s)"
  by (simp add: enrich_def reliability_of_def impact_of_spec Let_def)

theorem impact_derivation_witness:
  "body sample_item = Some ''text''
   \<and> impact (enrich sample_draws ''NEGATIVE'' sample_item) = Some High"
proof -
  have "search_ci ''price'' ''Bitcoin price falls''"
    by (simp add: upper_char_def)
  then have "matches_keywords price_keywords ''Bitcoin price falls''"
    by (simp add: matches_keywords_def price_keywords_def search_ci_occurs [symmetric])
  then have "spec_impact ''Bitcoin price falls'' ''NEGATIVE'' = High"
    by (simp add: spec_impact_def)
  then show ?thesis
    using impact_derivation [of sample_item "''text''" sample_draws "''NEGATIVE''"]
    by (simp add: sample_item_def)
qed

section \<open>Reliability\<close>

lemma base_range:
  fixes r :: real
  assumes "0 \<le> r" "r < 1"
  shows "75 \<le> \<lfloor>r * 20\<rfloor> + 75 \<and> \<lfloor>r * 20\<rfloor> + 75 < 95"
proof -
  have "0 \<le> r * 20" "r * 20 < 20" using assms by simp_all
  then have "0 \<le> \<lfloor>r * 20\<rfloor>" "\<lfloor>r * 20\<rfloor> < 20" by (simp_all add: floor_less_iff)
  then show ?thesis by simp
qed

lemma fallback_range:
  fixes r :: real
  assumes "0 \<le> r" "r < 1"
  shows "70 \<le> \<lfloor>r * 15\<rfloor> + 70 \<and> \<lfloor>r * 15\<rfloor> + 70 < 85"
proof -
  have "0 \<le> r * 15" "r * 15 < 15" using assms by simp_all
  then have "0 \<le> \<lfloor>r * 15\<rfloor>" "\<lfloor>r * 15\<rfloor> < 15" by (simp_all add: floor_less_iff)
  then show ?thesis by simp
qed

lemma starts_with_prefix: "starts_with pat t \<longleftrightarrow> (\<exists>q. t = pat @ q)"
  by (induction pat t rule: starts_with.induct) auto

text \<open>\<open>includes_str t pat\<close> holds exactly when \<open>pat\<close> is a contiguous piece of \<open>t\<close>.\<close>

lemma includes_str_infix: "includes_str t pat \<longleftrightarrow> (\<exists>p q. t = p @ pat @ q)"
proof (induction t)
  case Nil
  show ?case by (auto simp: starts_with_prefix)
next
  case (Cons c cs)
  show ?case
  proof
    assume "includes_str (c # cs) pat"
    then consider "starts_with pat (c # cs)" | "includes_str cs pat" by auto
    then show "\<exists>p q. c # cs = p @ pat @ q"
    proof cases
      case 1
      then obtain q where "c # cs = [] @ pat @ q" by (auto simp: starts_with_prefix)
      then show ?thesis by blast
    next
      case 2
      then obtain p q where "cs = p @ pat @ q" using Cons by blast
      then have "c # cs = (c # p) @ pat @ q" by simp
      then show ?thesis by blast
    qed
  next
    assume "\<exists>p q. c # cs = p @ pat @ q"
    then obtain p q where pq: "c # cs = p @ pat @ q" by blast
    show "includes_str (c # cs) pat"
    proof (cases p)
      case Nil
      with pq have "starts_with pat (c # cs)" by (auto simp: starts_with_prefix)
      then show ?thesis by simp
    next
      case (Cons p1 ps)
      with pq have "cs = ps @ pat @ q" by simp
      then have "includes_str cs pat" using Cons.IH by blast
      then show ?thesis by simp
    qed
  qed
qed

text \<open>Every item of the CryptoCompare adapter passes the test for the trusted provider.\<close>

lemma compare_item_trusted:
  "compare_item (Some raw) = Inr item \<Longrightarrow> includes_str (source item) ''CryptoCompare''"
proof -
  assume "compare_item (Some raw) = Inr item"
  then have "source item = [] @ ''CryptoCompare'' @ ('' - '' @ cc_source raw)"
    by (auto simp: compare_item_def)
  then show ?thesis unfolding includes_str_infix by blast
qed

lemma trusted_includes:
  "from_trusted_provider item \<Longrightarrow> includes_str (source item) ''CryptoCompare''"
proof -
  assume "from_trusted_provider item"
  then obtain q where "source item = ''CryptoCompare - '' @ q"
    by (auto simp: from_trusted_provider_def starts_with_prefix)
  then have "source item = [] @ ''CryptoCompare'' @ ('' - '' @ q)" by simp
  then show ?thesis unfolding includes_str_infix by blast
qed

lemma compare_item_from_trusted:
  "compare_item (Some raw) = Inr item \<Longrightarrow> from_trusted_provider item"
  by (auto simp: compare_item_def from_trusted_provider_def starts_with_prefix)

text \<open>
  C9 (as amended). The draws of \<open>Math.random()\<close> lie in \<open>[0,1)\<close>. On the success
  path (the body is present) the reliability is the integer: the base
  \<open>floor (draw * 20) + 75\<close>, which lies in \<open>[75,95)\<close>, plus 5 if the body is longer
  than 200 characters, plus 5 if the source label contains the text CryptoCompare,
  capped at 100; it lies in \<open>[75,100]\<close>. Every item of the trusted provider passes
  that test, and for such an item, as for an item whose label does not contain the
  text, the value is the one the specification's rule gives. On the failure path
  (reading the length of a missing body raises) the reliability is
  \<open>floor (draw * 15) + 70\<close>, in \<open>[70,85)\<close>.
\<close>

theorem reliability_range:
  assumes "0 \<le> base_draw d" "base_draw d < 1" "0 \<le> fallback_draw d" "fallback_draw d < 1"
  shows "(body item = Some b \<longrightarrow>
            reliability (enrich d s item)
              = Some (min (\<lfloor>base_draw d * 20\<rfloor> + 75
                           + (if length b > 200 then 5 else 0)
                           + (if includes_str (source item) ''CryptoCompare'' then 5 else 0)) 100)
            \<and> 75 \<le> min (\<lfloor>base_draw d * 20\<rfloor> + 75
                           + (if length b > 200 then 5 else 0)
                           + (if includes_str (source item) ''CryptoCompare'' then 5 else 0)) 100)
       \<and> 75 \<le> \<lfloor>base_draw d * 20\<rfloor> + 75 \<and> \<lfloor>base_draw d * 20\<rfloor> + 75 < 95
       \<and> (body item = Some b
            \<and> (from_trusted_provider item \<or> \<not> includes_str (source item) ''CryptoCompare'') \<longrightarrow>
            reliability (enrich d s item) = Some (spec_reliability (base_draw d) b item))
       \<and> (from_trusted_provider item \<longrightarrow> includes_str (source item) ''CryptoCompare'')
       \<and> (compare_item (Some raw) = Inr item \<longrightarrow> from_trusted_provider item)
       \<and> (body item = None \<longrightarrow>
            reliability (enrich d s item) = Some (\<lfloor>fallback_draw d * 15\<rfloor> + 70))
       \<and> 70 \<le> \<lfloor>fallback_draw d * 15\<rfloor> + 70 \<and> \<lfloor>fallback_draw d * 15\<rfloor> + 70 < 85"
proof -
  let ?base = "\<lfloor>base_draw d * 20\<rfloor> + 75"
  have base: "75 \<le> ?base \<and> ?base < 95" using assms(1,2) by (rule base_range)
  have fallback: "70 \<le> \<lfloor>fallback_draw d * 15\<rfloor> + 70 \<and> \<lfloor>fallback_draw d * 15\<rfloor> + 70 < 85"
    using assms(3,4) by (rule fallback_range)
  have exact: "reliability (enrich d s item)
              = Some (min (?base + (if length b > 200 then 5 else 0)
                           + (if includes_str (source item) ''CryptoCompare'' then 5 else 0)) 100)"
    if "body item = Some b"
    using that by (simp add: enrich_def reliability_of_def Let_def)
  have low: "75 \<le> min (?base + (if length b > 200 then 5 else 0)
                           + (if includes_str (source item) ''CryptoCompare'' then 5 else 0)) 100"
    using base by auto
  have spec: "reliability (enrich d s item) = Some (spec_reliability (base_draw d) b item)"
    if "body item = Some b"
      and "from_trusted_provider item \<or> \<not> includes_str (source item) ''CryptoCompare''"
  proof -
    have "from_trusted_provider item \<longleftrightarrow> includes_str (source item) ''CryptoCompare''"
      using that(2) trusted_includes by blast
    then show ?thesis using exact [OF that(1)] by (simp add: spec_reliability_def)
  qed
  have none: "reliability (enrich d s item) = Some (\<lfloor>fallback_draw d * 15\<rfloor> + 70)"
    if "body item = None"
    using that by (simp add: enrich_def reliability_of_def)
  show ?thesis
    using base fallback exact low spec none trusted_includes compare_item_from_trusted
    by blast
qed

theorem reliability_range_witness:
  "0 \<le> base_draw sample_draws \<and> base_draw sample_draws < 1
   \<and> 0 \<le> fallback_draw sample_draws \<and> fallback_draw sample_draws < 1
   \<and> body sample_item = Some ''text'' \<and> from_trusted_provider sample_item
   \<and> reliability (enrich sample_draws ''NEGATIVE'' sample_item) = Some 90
   \<and> body long_item = Some (replicate 201 (CHR ''a''))
   \<and> reliability (enrich sample_draws ''NEGATIVE'' long_item) = Some 95
   \<and> reliability (enrich high_draws ''NEGATIVE'' long_item) = Some 100
   \<and> body relay_news = Some [] \<and> reliability (enrich high_draws ''NEGATIVE'' relay_news) = Some 99
   \<and> body (sample_item\<lparr>body := None\<rparr>) = None
   \<and> reliability (enrich sample_draws ''NEGATIVE'' (sample_item\<lparr>body := None\<rparr>)) = Some 77
   \<and> reliability (enrich high_draws ''NEGATIVE'' (sample_item\<lparr>body := None\<rparr>)) = Some 84"
proof -
  have h: "0 \<le> base_draw sample_draws" "base_draw sample_draws < 1"
    "0 \<le> fallback_draw sample_draws" "fallback_draw sample_draws < 1"
    by (simp_all add: sample_draws_def)
  have h': "0 \<le> base_draw high_draws" "base_draw high_draws < 1"
    "0 \<le> fallback_draw high_draws" "fallback_draw high_draws < 1"
    by (simp_all add: high_draws_def)
  have t: "from_trusted_provider sample_item" "from_trusted_provider long_item"
    by (simp_all add: from_trusted_provider_def long_item_def sample_item_def)
  have inc: "includes_str (source sample_item) ''CryptoCompare''"
    "includes_str (source long_item) ''CryptoCompare''"
    "includes_str (source relay_news) ''CryptoCompare''"
    by (simp_all add: long_item_def sample_item_def relay_news_def)
  have b: "body sample_item = Some ''text''" "body long_item = Some (replicate 201 (CHR ''a''))"
    "body relay_news = Some []" "body (sample_item\<lparr>body := None\<rparr>) = None"
    by (simp_all add: long_item_def sample_item_def relay_news_def)
  have fl: "\<lfloor>base_draw sample_draws * 20\<rfloor> = 10" "\<lfloor>fallback_draw sample_draws * 15\<rfloor> = 7"
    "\<lfloor>base_draw high_draws * 20\<rfloor> = 19" "\<lfloor>fallback_draw high_draws * 15\<rfloor> = 14"
    by (simp_all add: sample_draws_def high_draws_def)
  note r1 = reliability_range [OF h, of sample_item "''text''" "''NEGATIVE''"]
  note r2 = reliability_range [OF h, of long_item "replicate 201 (CHR ''a'')" "''NEGATIVE''"]
  note r3 = reliability_range [OF h', of long_item "replicate 201 (CHR ''a'')" "''NEGATIVE''"]
  note r4 = reliability_range [OF h', of relay_news "[]" "''NEGATIVE''"]
  note r5 = reliability_range [OF h, of "sample_item\<lparr>body := None\<rparr>" _ "''NEGATIVE''"]
  note r6 = reliability_range [OF h', of "sample_item\<lparr>body := None\<rparr>" _ "''NEGATIVE''"]
  show ?thesis
    using r1 r2 r3 r4 r5 r6 h t
    by (simp add: b inc fl)
qed

text \<open>
  C9 as stated fails for an item of another provider whose source title names
  CryptoCompare: the CryptoPanic adapter labels it \<open>CryptoPanic - CryptoCompare Blog\<close>,
  the label contains the text, and the item gets the bonus of the trusted provider:
  90 where the rule of the specification gives 85.
\<close>

theorem other_provider_gets_bonus:
  "panic_item ''synthetic'' (Some relay_panic) = Inr relay_news
   \<and> \<not> from_trusted_provider relay_news
   \<and> reliability (enrich sample_draws ''NEUTRAL'' relay_news) = Some 90
   \<and> spec_reliability (base_draw sample_draws) [] relay_news = 85"
proof -
  have "\<lfloor>base_draw sample_draws * 20\<rfloor> = 10" by (simp add: sample_draws_def)
  moreover have "includes_str (source relay_news) ''CryptoCompare''"
    "\<not> from_trusted_provider relay_news" "body relay_news = Some []"
    by (simp_all add: relay_news_def from_trusted_provider_def)
  moreover have "panic_item ''synthetic'' (Some relay_panic) = Inr relay_news"
    by (simp add: panic_item_def relay_panic_def relay_news_def or_empty_def)
  ultimately show ?thesis
    by (simp add: enrich_def reliability_of_def spec_reliability_def)
qed

section \<open>The timeout of an aggregation cycle\<close>

text \<open>
  C2. Both providers answer after 15 seconds, beyond the budget of 10 seconds. The
  timer has called \<open>controller.abort()\<close>, yet the call is not rejected with the
  timeout error: it resolves, at clock 15000, with the item delivered by the late
  response, so the requests were not cancelled.
\<close>

theorem slow_cycle_not_aborted:
  "elapsed (slow_world 0) = 15000
   \<and> fst (fetchCryptoNews 0 slow_world (initial_state 0)) = Inr [slow_news]
   \<and> fst (fetchCryptoNews 0 slow_world (initial_state 0)) \<noteq> Inl timeout_error
   \<and> now (snd (fetchCryptoNews 0 slow_world (initial_state 0))) = 15000
   \<and> abortCalls (snd (fetchCryptoNews 0 slow_world (initial_state 0))) = 1"
proof -
  have "fault (slow_world 0) = None" by (simp add: slow_world_def slow_attempt_def)
  then have "fetchCryptoNews 0 slow_world (initial_state 0) =
     (Inr (merged (slow_world 0)),
      (after_adapters (slow_world 0) (initial_state 0))\<lparr> newsCache :=
         Some \<lparr> data = merged (slow_world 0),
                timestamp = now (after_adapters (slow_world 0) (initial_state 0)) \<rparr> \<rparr>)"
    using fetch_ok [of "initial_state 0" slow_world 0] fresh_initial by simp
  then show ?thesis
    by (simp add: slow_world_def merged_slow after_adapters_def initial_state_def)
       (simp add: slow_attempt_def)
qed

section \<open>Isolation of the provider adapters\<close>

lemma compare_failed: "failed_response r \<Longrightarrow> fetchCryptoCompareNews r = []"
  by (cases r) (auto simp: fetchCryptoCompareNews_def compare_try_def validateResponse_def
      split: option.splits news_body.splits sum.splits)

lemma panic_failed: "failed_response r \<Longrightarrow> fetchCryptoPanicNews sy r = []"
  by (cases r) (auto simp: fetchCryptoPanicNews_def panic_try_def validateResponse_def
      split: option.splits news_body.splits sum.splits)

text \<open>
  C6. For every failed upstream outcome of an adapter (request rejected, status not a
  success, body not parsable, expected array missing) and for every exception raised
  in its \<open>try\<close> block, the adapter returns the empty list. When the news cache is
  not fresh, no fault occurs and the response of one provider is a failure, the
  aggregated output is the sorted list of the other provider's normalized items, with
  the same items as a multiset.
\<close>

theorem adapter_isolation:
  "(failed_response r1 \<or> compare_try r1 = Inl e1 \<longrightarrow> fetchCryptoCompareNews r1 = [])
   \<and> (failed_response r2 \<or> panic_try sy r2 = Inl e2 \<longrightarrow> fetchCryptoPanicNews sy r2 = [])
   \<and> (fresh_news s = None \<and> fault (w k) = None \<and> failed_response (compare_resp (w k)) \<longrightarrow>
        fst (fetchCryptoNews k w s)
          = Inr (sortNews (fetchCryptoPanicNews (synth_id (w k)) (panic_resp (w k))))
        \<and> mset (sortNews (fetchCryptoPanicNews (synth_id (w k)) (panic_resp (w k))))
          = mset (fetchCryptoPanicNews (synth_id (w k)) (panic_resp (w k))))
   \<and> (fresh_news s = None \<and> fault (w k) = None \<and> failed_response (panic_resp (w k)) \<longrightarrow>
        fst (fetchCryptoNews k w s)
          = Inr (sortNews (fetchCryptoCompareNews (compare_resp (w k))))
        \<and> mset (sortNews (fetchCryptoCompareNews (compare_resp (w k))))
          = mset (fetchCryptoCompareNews (compare_resp (w k))))"
proof (intro conjI impI)
  assume "failed_response r1 \<or> compare_try r1 = Inl e1"
  then show "fetchCryptoCompareNews r1 = []"
    using compare_failed [of r1] by (auto simp: fetchCryptoCompareNews_def)
next
  assume "failed_response r2 \<or> panic_try sy r2 = Inl e2"
  then show "fetchCryptoPanicNews sy r2 = []"
    using panic_failed [of r2 sy] by (auto simp: fetchCryptoPanicNews_def)
next
  assume a: "fresh_news s = None \<and> fault (w k) = None \<and> failed_response (compare_resp (w k))"
  then have "fetchCryptoCompareNews (compare_resp (w k)) = []" by (simp add: compare_failed)
  then show "fst (fetchCryptoNews k w s)
          = Inr (sortNews (fetchCryptoPanicNews (synth_id (w k)) (panic_resp (w k))))"
    using a fetch_ok [of s w k] by (simp add: merged_def)
next
  assume a: "fresh_news s = None \<and> fault (w k) = None \<and> failed_response (panic_resp (w k))"
  then have "fetchCryptoPanicNews (synth_id (w k)) (panic_resp (w k)) = []" by (simp add: panic_failed)
  then show "fst (fetchCryptoNews k w s)
          = Inr (sortNews (fetchCryptoCompareNews (compare_resp (w k))))"
    using a fetch_ok [of s w k] by (simp add: merged_def)
qed (simp_all add: mset_sortNews)

theorem adapter_isolation_witness:
  "failed_response (Response 503 (None :: compare_raw option news_body option))
   \<and> fetchCryptoCompareNews (Response 503 None) = []
   \<and> failed_response (Rejected AbortError :: panic_raw option news_body http)
   \<and> fetchCryptoPanicNews no_synth (Rejected AbortError) = []
   \<and> fresh_news (initial_state 0) = None \<and> fault (half_world 0) = None
   \<and> failed_response (panic_resp (half_world 0))
   \<and> fst (fetchCryptoNews 0 half_world (initial_state 0)) = Inr [slow_news]"
proof -
  have a: "failed_response (Response 503 (None :: compare_raw option news_body option))"
    "failed_response (Rejected AbortError :: panic_raw option news_body http)"
    "fault (half_world 0) = None" "failed_response (panic_resp (half_world 0))"
    by (simp_all add: half_world_def half_attempt_def slow_attempt_def ok_def)
  have c: "sortNews (fetchCryptoCompareNews (compare_resp (half_world 0))) = [slow_news]"
    by (simp add: half_world_def half_attempt_def slow_attempt_def sortNews_def fetchCryptoCompareNews_def
      compare_try_def validateResponse_def ok_def compare_item_def slow_item_def slow_news_def)
  show ?thesis
    using adapter_isolation [of "Response 503 None" TypeError "Rejected AbortError" no_synth TypeError
       "initial_state 0" half_world 0] a c fresh_initial
    by simp
qed

section \<open>The news cache\<close>





section \<open>Identity of feed entries\<close>

lemma findIndex_ge: "- 1 \<le> findIndex P xs"
  by (induction xs) (auto simp: Let_def)

lemma upsert_Nil: "upsert [] x = [x]"
  by (simp add: upsert_def)

lemma upsert_Cons:
  "upsert (y # ys) x = (if item_id y = item_id x then x # ys else y # upsert ys x)"
proof (cases "item_id y = item_id x")
  case True
  then show ?thesis by (simp add: upsert_def)
next
  case False
  let ?i = "findIndex (\<lambda>n. item_id n = item_id x) ys"
  show ?thesis
  proof (cases "?i = - 1")
    case True
    with False show ?thesis by (simp add: upsert_def)
  next
    case neq: False
    then have "0 \<le> ?i" using findIndex_ge [of "\<lambda>n. item_id n = item_id x" ys] by linarith
    then have "nat (?i + 1) = Suc (nat ?i)" "?i + 1 \<noteq> - 1" by linarith+
    with False neq show ?thesis by (simp add: upsert_def Let_def)
  qed
qed

lemma ids_upsert:
  "map item_id (upsert xs x) =
     (if item_id x \<in> set (map item_id xs) then map item_id xs else map item_id xs @ [item_id x])"
  by (induction xs) (auto simp: upsert_Nil upsert_Cons)

lemma distinct_upsert:
  "distinct (map item_id xs) \<Longrightarrow> distinct (map item_id (upsert xs x))"
  by (simp add: ids_upsert)

lemma distinct_foldl_upsert:
  "distinct (map item_id xs) \<Longrightarrow> distinct (map item_id (foldl upsert xs chunk))"
  by (induction chunk arbitrary: xs) (simp_all add: distinct_upsert)

lemma distinct_ids_sortNews:
  "distinct (map item_id (sortNews xs)) = distinct (map item_id xs)"
proof -
  have "mset (map item_id (sortNews xs)) = mset (map item_id xs)"
    by (simp add: mset_sortNews)
  then show ?thesis by (rule mset_eq_imp_distinct_iff)
qed

lemma distinct_setNews:
  "distinct (map item_id prev) \<Longrightarrow> distinct (map item_id (setNews prev chunk))"
  by (simp add: setNews_def distinct_ids_sortNews distinct_foldl_upsert)

lemma distinct_feed: "distinct (map item_id (feed_after chunks))"
proof (induction chunks rule: rev_induct)
  case Nil
  show ?case by (simp add: feed_after_def)
next
  case (snoc c cs)
  then show ?case by (simp add: feed_after_def distinct_setNews)
qed

lemma lookup_upsert:
  "lookup_id i (upsert xs x) = (if i = item_id x then Some x else lookup_id i xs)"
  by (induction xs) (auto simp: upsert_Nil upsert_Cons lookup_id_def)

lemma lookup_append:
  "lookup_id i (xs @ ys) = (case lookup_id i xs of Some x \<Rightarrow> Some x | None \<Rightarrow> lookup_id i ys)"
  by (induction xs) (auto simp: lookup_id_def)

lemma lookup_foldl_upsert:
  "lookup_id i (foldl upsert prev chunk) =
     (case lookup_id i (rev chunk) of Some x \<Rightarrow> Some x | None \<Rightarrow> lookup_id i prev)"
proof (induction chunk arbitrary: prev)
  case Nil
  show ?case by (simp add: lookup_id_def)
next
  case (Cons x xs)
  have "lookup_id i [x] = (if i = item_id x then Some x else None)"
    by (auto simp: lookup_id_def)
  then show ?case
    by (simp add: Cons lookup_upsert lookup_append split: option.splits)
qed

lemma lookup_unique:
  assumes "distinct (map item_id xs)"
  shows "lookup_id i xs = Some x \<longleftrightarrow> x \<in> set xs \<and> item_id x = i"
  using assms by (induction xs) (auto simp: lookup_id_def)

lemma lookup_same_set:
  assumes "distinct (map item_id xs)" "distinct (map item_id ys)" "set xs = set ys"
  shows "lookup_id i xs = lookup_id i ys"
proof (cases "lookup_id i xs")
  case None
  then have "\<not> (\<exists>x\<in>set ys. item_id x = i)"
    using assms(3) by (auto simp: lookup_id_def find_None_iff)
  then have "lookup_id i ys = None" by (simp add: lookup_id_def find_None_iff)
  with None show ?thesis by simp
next
  case (Some x)
  then have "x \<in> set ys \<and> item_id x = i"
    using lookup_unique [OF assms(1)] assms(3) by simp
  then have "lookup_id i ys = Some x" using lookup_unique [OF assms(2)] by simp
  with Some show ?thesis by simp
qed

lemma lookup_sortNews:
  "distinct (map item_id xs) \<Longrightarrow> lookup_id i (sortNews xs) = lookup_id i xs"
  by (rule lookup_same_set) (simp_all add: distinct_ids_sortNews set_sortNews)

lemma upsert_new: "item_id x \<notin> item_id ` set xs \<Longrightarrow> upsert xs x = xs @ [x]"
  by (induction xs) (auto simp: upsert_Nil upsert_Cons)

lemma upsert_existing:
  "distinct (map item_id xs) \<Longrightarrow> j < length xs \<Longrightarrow> item_id (xs ! j) = item_id x \<Longrightarrow>
   upsert xs x = xs[j := x]"
proof (induction xs arbitrary: j)
  case Nil
  then show ?case by simp
next
  case (Cons y ys)
  show ?case
  proof (cases j)
    case 0
    with Cons.prems show ?thesis by (simp add: upsert_Cons)
  next
    case (Suc j')
    with Cons.prems have "item_id y \<noteq> item_id x"
      by (metis distinct.simps(2) length_Cons list.simps(9) not_less_eq nth_Cons_Suc nth_map nth_mem length_map)
    with Cons Suc show ?thesis by (simp add: upsert_Cons)
  qed
qed

text \<open>
  C3 (as amended). Every feed reached from the empty feed has unique ids. The
  updater of \<open>setNews\<close> keeps the ids unique, and for each id the entry of the new
  feed is the last item of the chunk that carries the id, or the previous entry when
  the chunk has none: an item whose id exists replaces that entry in place, an item
  with a new id is appended. The list \<open>fetchCryptoNews\<close> resolves with is not
  reconciled: it holds every item of both providers.
\<close>

theorem feed_unique_ids:
  "distinct (map item_id (feed_after chunks))
   \<and> (distinct (map item_id prev) \<longrightarrow>
        distinct (map item_id (setNews prev chunk))
        \<and> lookup_id i (setNews prev chunk)
            = (case lookup_id i (rev chunk) of Some x \<Rightarrow> Some x | None \<Rightarrow> lookup_id i prev))
   \<and> (distinct (map item_id xs) \<and> j < length xs \<and> item_id (xs ! j) = item_id x \<longrightarrow>
        upsert xs x = xs[j := x])
   \<and> (item_id y \<notin> item_id ` set ys \<longrightarrow> upsert ys y = ys @ [y])
   \<and> (fresh_news s = None \<and> fault (w k) = None \<longrightarrow>
        fst (fetchCryptoNews k w s) = Inr (merged (w k))
        \<and> mset (merged (w k))
            = mset (fetchCryptoCompareNews (compare_resp (w k)))
              + mset (fetchCryptoPanicNews (synth_id (w k)) (panic_resp (w k))))"
proof (intro conjI impI)
  show "distinct (map item_id (feed_after chunks))" by (rule distinct_feed)
next
  assume d: "distinct (map item_id prev)"
  then show "distinct (map item_id (setNews prev chunk))" by (rule distinct_setNews)
  have "distinct (map item_id (foldl upsert prev chunk))" using d by (rule distinct_foldl_upsert)
  then show "lookup_id i (setNews prev chunk)
            = (case lookup_id i (rev chunk) of Some x \<Rightarrow> Some x | None \<Rightarrow> lookup_id i prev)"
    by (simp add: setNews_def lookup_sortNews lookup_foldl_upsert)
next
  assume "distinct (map item_id xs) \<and> j < length xs \<and> item_id (xs ! j) = item_id x"
  then show "upsert xs x = xs[j := x]" by (simp add: upsert_existing)
next
  assume "item_id y \<notin> item_id ` set ys"
  then show "upsert ys y = ys @ [y]" by (rule upsert_new)
next
  assume a: "fresh_news s = None \<and> fault (w k) = None"
  then show "fst (fetchCryptoNews k w s) = Inr (merged (w k))"
    using fetch_ok [of s w k] by simp
next
  show "mset (merged (w k))
            = mset (fetchCryptoCompareNews (compare_resp (w k)))
              + mset (fetchCryptoPanicNews (synth_id (w k)) (panic_resp (w k)))"
    by (simp add: merged_def mset_sortNews)
qed

theorem feed_unique_ids_witness:
  "distinct (map item_id [slow_news])
   \<and> setNews [slow_news] [panic_news] = [panic_news]
   \<and> setNews [] [slow_news, panic_news] = [panic_news]
   \<and> setNews [] [panic_news, slow_news] = [slow_news]
   \<and> lookup_id (Str ''42'') (setNews [slow_news] [panic_news]) = Some panic_news
   \<and> 0 < length [slow_news] \<and> item_id ([slow_news] ! 0) = item_id panic_news
   \<and> upsert [slow_news] panic_news = [panic_news]
   \<and> item_id (panic_news\<lparr> item_id := Str ''43'' \<rparr>) \<notin> item_id ` set [slow_news]
   \<and> upsert [slow_news] (panic_news\<lparr> item_id := Str ''43'' \<rparr>)
       = [slow_news, panic_news\<lparr> item_id := Str ''43'' \<rparr>]
   \<and> fresh_news (initial_state 0) = None \<and> fault (dup_world 0) = None
   \<and> fst (fetchCryptoNews 0 dup_world (initial_state 0)) = Inr [panic_news, slow_news]"
proof -
  have ids: "item_id slow_news = Str ''42''" "item_id panic_news = Str ''42''"
    by (simp_all add: slow_news_def panic_news_def)
  have s1: "setNews [slow_news] [panic_news] = [panic_news]"
    "setNews [] [slow_news, panic_news] = [panic_news]"
    "setNews [] [panic_news, slow_news] = [slow_news]"
    by (simp_all add: setNews_def upsert_def sortNews_def ids)
  have f: "fault (dup_world 0) = None" by (simp add: dup_world_def dup_attempt_def slow_attempt_def)
  show ?thesis
    using feed_unique_ids [of "[]" "[slow_news]" "[panic_news]" "Str ''42''" "[slow_news]" 0 panic_news
        "panic_news\<lparr> item_id := Str ''43'' \<rparr>" "[slow_news]" "initial_state 0" dup_world 0]
      s1 f fresh_initial
    by (simp add: ids lookup_id_def merged_dup dup_world_def)
qed

text \<open>
  C3 as stated fails for the merged output of the aggregator: two provider items that
  share an id are both in the list \<open>fetchCryptoNews\<close> resolves with.
\<close>

theorem merged_list_keeps_shared_id:
  "fst (fetchCryptoNews 0 dup_world (initial_state 0)) = Inr [panic_news, slow_news]
   \<and> item_id panic_news = item_id slow_news \<and> panic_news \<noteq> slow_news"
  by (simp add: fetch_dup_initial) (simp add: panic_news_def slow_news_def)

section \<open>Newest first\<close>

lemma set_upsert: "set (upsert xs x) \<subseteq> insert x (set xs)"
  by (induction xs) (auto simp: upsert_Nil upsert_Cons)

lemma set_foldl_upsert: "set (foldl upsert xs chunk) \<subseteq> set xs \<union> set chunk"
proof (induction chunk arbitrary: xs)
  case Nil
  show ?case by simp
next
  case (Cons c cs)
  show ?case using Cons [of "upsert xs c"] set_upsert [of xs c] by auto
qed

lemma dated_foldl_upsert: "dated prev \<Longrightarrow> dated chunk \<Longrightarrow> dated (foldl upsert prev chunk)"
  unfolding dated_iff using set_foldl_upsert [of prev chunk] by blast

lemma dated_setNews: "dated prev \<Longrightarrow> dated chunk \<Longrightarrow> dated (setNews prev chunk)"
  using dated_foldl_upsert [of prev chunk] by (simp add: dated_iff setNews_def set_sortNews)

lemma sorted_desc_setNews: "dated prev \<Longrightarrow> dated chunk \<Longrightarrow> sorted_desc (setNews prev chunk)"
  unfolding setNews_def by (intro sorted_desc_sortNews dated_foldl_upsert)

lemma feed_dated_sorted:
  "list_all dated chunks \<Longrightarrow> dated (feed_after chunks) \<and> sorted_desc (feed_after chunks)"
proof (induction chunks rule: rev_induct)
  case Nil
  show ?case by (simp add: feed_after_def dated_def sorted_desc_def)
next
  case (snoc c cs)
  then have "dated (feed_after cs)" "dated c" by simp_all
  then show ?case
    by (simp add: feed_after_def dated_setNews sorted_desc_setNews)
qed

lemma cache_sorted_wait: "cache_sorted (delay ms (attempt_state a s)) = cache_sorted s"
  by (simp add: cache_sorted_def delay_def cache_attempt_state)

lemma fetch_keeps_sorted:
  "cache_sorted s \<Longrightarrow> \<forall>j. dated (gathered (w j)) \<Longrightarrow>
     cache_sorted (snd (fetchCryptoNews k w s))
     \<and> (\<forall>xs. fst (fetchCryptoNews k w s) = Inr xs \<longrightarrow> sorted_desc xs)"
proof (induction k w s rule: fetchCryptoNews.induct)
  case (1 k w s)
  show ?case
  proof (cases "fresh_news s")
    case (Some cached)
    then have "sorted_desc cached"
      using "1.prems" by (auto simp: fresh_news_def cache_sorted_def split: option.splits if_splits)
    then show ?thesis using "1.prems" by (simp add: fetch_hit [OF Some])
  next
    case None
    show ?thesis
    proof (cases "fault (w k)")
      case no_fault: None
      have "sorted_desc (merged (w k))"
        using "1.prems"(2) by (simp add: merged_def gathered_def sorted_desc_sortNews)
      then show ?thesis
        using fetch_ok [of s w k] None no_fault by (simp add: cache_sorted_def)
    next
      case (Some f)
      show ?thesis
      proof (cases "k < maxRetries")
        case True
        have "cache_sorted (delay (baseDelay * 2 ^ k) (attempt_state (w k) s))"
          using "1.prems" by (simp add: cache_sorted_wait)
        then show ?thesis
          using "1.IH" [OF None refl refl Some thrown_not_abort True] "1.prems"(2)
            fetch_retry [of s w k f] None Some True
          by simp
      next
        case gave_up: False
        show ?thesis
          using "1.prems" fetch_give_up [of s w k f] None Some gave_up
          by (auto simp: cache_sorted_def cache_attempt_state cached_or_empty_def sorted_desc_def
              split: option.splits)
      qed
    qed
  qed
qed

text \<open>
  C4 (as amended). When every item carries a number as its date, the merged list of
  an aggregation attempt is sorted newest first, and so is every feed: the result of
  the \<open>setNews\<close> updater on a previous feed and a chunk, and the feed after any
  sequence of chunks. When in addition the cached list is sorted (it is in the initial
  state, and these calls keep it so), every list \<open>fetchCryptoNews\<close> resolves with is
  sorted newest first, whether merged, cached or stale.
\<close>

theorem newest_first:
  "(dated (gathered a) \<longrightarrow> sorted_desc (merged a))
   \<and> (dated prev \<and> dated chunk \<longrightarrow> sorted_desc (setNews prev chunk))
   \<and> (list_all dated chunks \<longrightarrow> sorted_desc (feed_after chunks))
   \<and> (cache_sorted s \<and> (\<forall>j. dated (gathered (w j))) \<and> fst (fetchCryptoNews k w s) = Inr xs \<longrightarrow>
        sorted_desc xs \<and> cache_sorted (snd (fetchCryptoNews k w s)))"
  using fetch_keeps_sorted [of s w k]
  by (simp add: merged_def gathered_def sorted_desc_sortNews sorted_desc_setNews feed_dated_sorted)

theorem newest_first_witness:
  "dated (gathered dup_attempt) \<and> merged dup_attempt = [panic_news, slow_news]
   \<and> dated [slow_news] \<and> dated [panic_news\<lparr> item_id := Str ''43'' \<rparr>]
   \<and> setNews [slow_news] [panic_news\<lparr> item_id := Str ''43'' \<rparr>]
       = [panic_news\<lparr> item_id := Str ''43'' \<rparr>, slow_news]
   \<and> list_all dated [[slow_news], [panic_news\<lparr> item_id := Str ''43'' \<rparr>]]
   \<and> feed_after [[slow_news], [panic_news\<lparr> item_id := Str ''43'' \<rparr>]]
       = [panic_news\<lparr> item_id := Str ''43'' \<rparr>, slow_news]
   \<and> cache_sorted (initial_state 0)
   \<and> fst (fetchCryptoNews 0 dup_world (initial_state 0)) = Inr [panic_news, slow_news]
   \<and> sorted_desc [panic_news, slow_news]
   \<and> cache_sorted (snd (fetchCryptoNews 0 dup_world (initial_state 0)))"
proof -
  have g: "gathered dup_attempt = [slow_news, panic_news]"
    by (simp add: gathered_def dup_attempt_def slow_attempt_def fetchCryptoCompareNews_def
      fetchCryptoPanicNews_def compare_try_def panic_try_def validateResponse_def ok_def
      compare_item_def panic_item_def or_empty_def slow_item_def dup_panic_def slow_news_def
      panic_news_def)
  have d: "dated [slow_news, panic_news]" "dated [slow_news]"
    "dated [panic_news\<lparr> item_id := Str ''43'' \<rparr>]"
    by (simp_all add: dated_def slow_news_def panic_news_def)
  have c: "cache_sorted (initial_state 0)" by (simp add: cache_sorted_def initial_state_def)
  have r: "fst (fetchCryptoNews 0 dup_world (initial_state 0)) = Inr [panic_news, slow_news]"
    by (simp add: fetch_dup_initial)
  have s: "setNews [slow_news] [panic_news\<lparr> item_id := Str ''43'' \<rparr>]
       = [panic_news\<lparr> item_id := Str ''43'' \<rparr>, slow_news]"
    by (simp add: setNews_def upsert_def sortNews_def slow_news_def panic_news_def
        comparefn_def greater_zero_def)
  have f: "feed_after [[slow_news], [panic_news\<lparr> item_id := Str ''43'' \<rparr>]]
       = [panic_news\<lparr> item_id := Str ''43'' \<rparr>, slow_news]"
    by (simp add: feed_after_def setNews_def upsert_def sortNews_def slow_news_def panic_news_def
        comparefn_def greater_zero_def)
  show ?thesis
    using newest_first [of dup_attempt "[slow_news]" "[panic_news\<lparr> item_id := Str ''43'' \<rparr>]"
        "[[slow_news], [panic_news\<lparr> item_id := Str ''43'' \<rparr>]]"
        "initial_state 0" dup_world 0 "[panic_news, slow_news]"] g d c r s f
    by (simp add: merged_dup dup_world_def)
qed

text \<open>
  C4 as stated fails when an item has no date. CryptoCompare delivers an item,
  CryptoPanic an item without a date and then a newer item. Every comparison with the
  undated item yields \<open>NaN\<close>, no element moves, and the call resolves with the older
  item in front of the newer one.
\<close>

theorem undated_item_breaks_order:
  "fst (fetchCryptoNews 0 undated_world (initial_state 0))
     = Inr [slow_news, undated_news, panic_news]
   \<and> published_on slow_news = Some 1700000000
   \<and> published_on undated_news = None
   \<and> published_on panic_news = Some 1700000500
   \<and> \<not> sorted_desc [slow_news, undated_news, panic_news]"
proof -
  have "fault (undated_world 0) = None"
    by (simp add: undated_world_def undated_attempt_def slow_attempt_def)
  then have "fst (fetchCryptoNews 0 undated_world (initial_state 0))
     = Inr [slow_news, undated_news, panic_news]"
    using fetch_ok [of "initial_state 0" undated_world 0] fresh_initial
    by (simp add: undated_world_def merged_undated)
  moreover have "\<not> sorted_desc [slow_news, undated_news, panic_news]"
    by (simp add: sorted_desc_def newer_or_equal_def slow_news_def undated_news_def)
  ultimately show ?thesis by (simp add: slow_news_def undated_news_def panic_news_def)
qed

section \<open>Mock market data in the cache\<close>

lemma market_try_mock:
  "mock_branch symbol r \<Longrightarrow> market_try symbol m r s = Inr (store_market m s)"
  by (cases r) (auto simp: market_try_def validateResponse_def ok_def split: option.splits)

lemma market_try_caught:
  "caught_failure r \<Longrightarrow> \<exists>e. market_try symbol m r s = Inl e"
  by (cases r) (auto simp: market_try_def validateResponse_def)

lemma cache_market_requested: "marketDataCache (market_requested c s) = marketDataCache s"
  by (simp add: market_requested_def checkRateLimit_def delay_def Let_def)

lemma fetchMarketData_hit:
  "fresh_market s = Some m \<Longrightarrow> fetchMarketData symbol c s = (m, s)"
  by (simp add: fetchMarketData_def)

lemma fresh_after_store_market:
  "d < MARKET_DATA_CACHE_DURATION \<Longrightarrow> fresh_market (advance d (snd (store_market m s))) = Some m"
  by (simp add: fresh_market_def advance_def store_market_def)

lemma mock_half: "mock_data half = mock_snapshot"
  by (simp add: mock_data_def half_def mock_snapshot_def)

lemma first_market_call:
  "fetchMarketData ''bitcoin'' good_call (initial_state 0)
     = store_market real_snapshot (market_requested good_call (initial_state 0))"
  by (simp add: fetchMarketData_def fresh_market_def initial_state_def Let_def market_try_def
      validateResponse_def ok_def market_fetch_def good_call_def btc_prices_def or_else_def
      real_snapshot_def)

lemma market_stale_cache:
  "marketDataCache market_stale = Some \<lparr> data = real_snapshot, timestamp = 100 \<rparr>
   \<and> now market_stale = 31100"
  unfolding market_stale_def first_market_call
  by (simp add: store_market_def advance_def
      market_requested_def checkRateLimit_def Let_def initial_state_def market_fetch_def
      good_call_def timeWindow_def maxRequests_def)

text \<open>
  C10 (as amended). When the market cache is not fresh and the response has status
  429 or lacks the entry of the symbol, \<open>fetchMarketData\<close> stores the mock snapshot
  with the current clock as timestamp and returns it, whatever the cache held. When the
  request fails otherwise (network error, timeout, other error status, unparsable
  body), it does so only if nothing is cached; if an older snapshot is cached, that
  snapshot is returned and the cache entry stays as it is. Every call made less than
  30 seconds after a snapshot was stored returns that snapshot from the cache.
\<close>

theorem market_fallback_cached:
  "(fresh_market s = None \<and> mock_branch symbol (fst (market_fetch c)) \<longrightarrow>
      fetchMarketData symbol c s = store_market (mock_data (rnd_mock c)) (market_requested c s))
   \<and> (fresh_market s = None \<and> caught_failure (fst (market_fetch c)) \<and> marketDataCache s = None \<longrightarrow>
      fetchMarketData symbol c s = store_market (mock_data (rnd_fallback c)) (market_requested c s))
   \<and> (fresh_market s = None \<and> caught_failure (fst (market_fetch c)) \<and> marketDataCache s = Some old \<longrightarrow>
      fetchMarketData symbol c s = (data old, market_requested c s)
      \<and> marketDataCache (market_requested c s) = Some old)
   \<and> (d < MARKET_DATA_CACHE_DURATION \<longrightarrow>
      fetchMarketData symbol' c' (advance d (snd (store_market m s')))
        = (m, advance d (snd (store_market m s'))))"
proof (intro conjI impI)
  assume "fresh_market s = None \<and> mock_branch symbol (fst (market_fetch c))"
  then show "fetchMarketData symbol c s = store_market (mock_data (rnd_mock c)) (market_requested c s)"
    by (simp add: fetchMarketData_def market_try_mock Let_def)
next
  assume a: "fresh_market s = None \<and> caught_failure (fst (market_fetch c)) \<and> marketDataCache s = None"
  then obtain e where "market_try symbol (mock_data (rnd_mock c)) (fst (market_fetch c)) (market_requested c s) = Inl e"
    using market_try_caught by blast
  then show "fetchMarketData symbol c s = store_market (mock_data (rnd_fallback c)) (market_requested c s)"
    using a by (simp add: fetchMarketData_def Let_def cache_market_requested)
next
  assume a: "fresh_market s = None \<and> caught_failure (fst (market_fetch c)) \<and> marketDataCache s = Some old"
  then obtain e where "market_try symbol (mock_data (rnd_mock c)) (fst (market_fetch c)) (market_requested c s) = Inl e"
    using market_try_caught by blast
  then show "fetchMarketData symbol c s = (data old, market_requested c s)"
    using a by (simp add: fetchMarketData_def Let_def cache_market_requested)
  show "marketDataCache (market_requested c s) = Some old"
    using a by (simp add: cache_market_requested)
next
  assume "d < MARKET_DATA_CACHE_DURATION"
  then show "fetchMarketData symbol' c' (advance d (snd (store_market m s')))
        = (m, advance d (snd (store_market m s')))"
    by (simp add: fetchMarketData_hit fresh_after_store_market)
qed

theorem market_fallback_cached_witness:
  "fresh_market (initial_state 0) = None
   \<and> mock_branch ''bitcoin'' (fst (market_fetch limited_call))
   \<and> fst (fetchMarketData ''bitcoin'' limited_call (initial_state 0)) = mock_snapshot
   \<and> caught_failure (fst (market_fetch offline_call))
   \<and> marketDataCache (initial_state 0) = None
   \<and> fst (fetchMarketData ''bitcoin'' offline_call (initial_state 0)) = mock_snapshot
   \<and> fresh_market market_stale = None
   \<and> marketDataCache market_stale = Some \<lparr> data = real_snapshot, timestamp = 100 \<rparr>
   \<and> fst (fetchMarketData ''bitcoin'' offline_call market_stale) = real_snapshot
   \<and> (29999 :: int) < MARKET_DATA_CACHE_DURATION
   \<and> fst (fetchMarketData ''bitcoin'' good_call
        (advance 29999 (snd (fetchMarketData ''bitcoin'' limited_call (initial_state 0)))))
       = mock_snapshot"
proof -
  have h1: "fresh_market (initial_state 0) = None" "marketDataCache (initial_state 0) = None"
    by (simp_all add: fresh_market_def initial_state_def)
  have h2: "mock_branch ''bitcoin'' (fst (market_fetch limited_call))"
    "caught_failure (fst (market_fetch offline_call))"
    by (simp_all add: market_fetch_def limited_call_def offline_call_def good_call_def)
  have h3: "fresh_market market_stale = None"
    by (simp add: fresh_market_def market_stale_cache MARKET_DATA_CACHE_DURATION_def)
  have h4: "(29999 :: int) < MARKET_DATA_CACHE_DURATION" by (simp add: MARKET_DATA_CACHE_DURATION_def)
  have m: "mock_data (rnd_mock limited_call) = mock_snapshot"
    "mock_data (rnd_fallback offline_call) = mock_snapshot"
    by (simp_all add: limited_call_def offline_call_def good_call_def mock_half)
  note a = market_fallback_cached [of "initial_state 0" "''bitcoin''" limited_call "\<lparr> data = real_snapshot, timestamp = 100 \<rparr>" 29999
       "''bitcoin''" good_call mock_snapshot "market_requested limited_call (initial_state 0)"]
  note b = market_fallback_cached [of "initial_state 0" "''bitcoin''" offline_call]
  note c = market_fallback_cached [of market_stale "''bitcoin''" offline_call
       "\<lparr> data = real_snapshot, timestamp = 100 \<rparr>"]
  show ?thesis
    using a b c h1 h2 h3 h4 market_stale_cache
    by (simp add: m store_market_def)
qed

text \<open>
  C10 as stated fails for a network error that meets an expired cache entry: no mock
  snapshot is written, the old snapshot is returned, and the entry keeps its old
  timestamp, so the next call is not a cache hit.
\<close>

theorem stale_snapshot_not_replaced:
  "fresh_market market_stale = None
   \<and> fst (fetchMarketData ''bitcoin'' offline_call market_stale) = real_snapshot
   \<and> marketDataCache (snd (fetchMarketData ''bitcoin'' offline_call market_stale))
       = Some \<lparr> data = real_snapshot, timestamp = 100 \<rparr>
   \<and> fresh_market (snd (fetchMarketData ''bitcoin'' offline_call market_stale)) = None"
proof -
  have stale: "fresh_market market_stale = None"
    by (simp add: fresh_market_def market_stale_cache MARKET_DATA_CACHE_DURATION_def)
  have r: "fst (market_fetch offline_call) = Rejected (JsError ''TypeError'' ''Failed to fetch'')"
    by (simp add: market_fetch_def offline_call_def good_call_def)
  have "fetchMarketData ''bitcoin'' offline_call market_stale
          = (real_snapshot, market_requested offline_call market_stale)"
    by (simp add: fetchMarketData_def stale Let_def r market_try_def cache_market_requested
        market_stale_cache)
  moreover have "now (market_requested offline_call market_stale) = 31200"
    unfolding market_stale_def first_market_call
    by (simp add: market_requested_def checkRateLimit_def Let_def
        market_fetch_def offline_call_def good_call_def
        store_market_def advance_def initial_state_def timeWindow_def maxRequests_def)
  ultimately show ?thesis
    by (simp add: stale cache_market_requested market_stale_cache fresh_market_def
        MARKET_DATA_CACHE_DURATION_def)
qed

end
